theory Spec2Isabelle
  imports Complex_Main
begin

unbundle bit_operations_syntax

section \<open>Python and numpy primitives\<close>

text \<open>
  Python floats are modelled as the reals: every arithmetic operation of the source is
  read exactly. The exceptions the modelled code can raise are values of \<open>py_error\<close>.
\<close>

datatype py_error = ZeroDivisionError | ValueError string | TypeError

text \<open>\<^verbatim>\<open>int(x)\<close> on a float truncates toward zero.\<close>

definition py_int :: "real \<Rightarrow> int" where
  "py_int x = (if 0 \<le> x then \<lfloor>x\<rfloor> else \<lceil>x\<rceil>)"

text \<open>\<^verbatim>\<open>round(x, n)\<close>: to \<open>n\<close> decimals, a tie going to the even neighbour.\<close>

definition py_round :: "real \<Rightarrow> nat \<Rightarrow> real" where
  "py_round x n =
     (let y = x * 10 ^ n; f = \<lfloor>y\<rfloor>; d = y - of_int f
      in of_int (if d < 1 / 2 then f else if 1 / 2 < d then f + 1
                 else if even f then f else f + 1) / 10 ^ n)"

text \<open>\<^verbatim>\<open>np.arange(start, stop, step)\<close> for a positive step.\<close>

definition arange :: "real \<Rightarrow> real \<Rightarrow> real \<Rightarrow> real list" where
  "arange start stop step =
     map (\<lambda>k. start + real k * step) [0..<nat \<lceil>(stop - start) / step\<rceil>]"

text \<open>
  The indices a slice \<^verbatim>\<open>a:b\<close> selects on an axis of size \<open>n\<close>: a negative bound
  counts from the end, and both bounds are clipped to the axis.
\<close>

definition slice_bound :: "int \<Rightarrow> int \<Rightarrow> int" where
  "slice_bound n i = (if i < 0 then max 0 (i + n) else min i n)"

definition np_slice :: "int \<Rightarrow> int \<Rightarrow> int \<Rightarrow> int list" where
  "np_slice n a b = [slice_bound n a..slice_bound n b - 1]"

text \<open>
  A loop that returns from inside its body at the first hit, and falls through when no
  iteration returns.
\<close>

fun first_some :: "('a \<Rightarrow> 'b option) \<Rightarrow> 'a list \<Rightarrow> 'b option" where
  "first_some f [] = None"
| "first_some f (x # xs) = (case f x of Some r \<Rightarrow> Some r | None \<Rightarrow> first_some f xs)"

text \<open>\<^verbatim>\<open>sorted(xs, key=k, reverse=True)\<close>: stable, largest key first.\<close>

definition sorted_desc :: "('a \<Rightarrow> real) \<Rightarrow> 'a list \<Rightarrow> 'a list" where
  "sorted_desc k xs = sort_key (\<lambda>x. - k x) xs"

subsection \<open>Strings\<close>

text \<open>Strings are byte strings; \<^verbatim>\<open>lower()\<close> is modelled on the ASCII letters.\<close>

definition lower_char :: "char \<Rightarrow> char" where
  "lower_char c =
     (case map_of (zip ''ABCDEFGHIJKLMNOPQRSTUVWXYZ'' ''abcdefghijklmnopqrstuvwxyz'') c of
        Some l \<Rightarrow> l
      | None \<Rightarrow> c)"

definition lower :: "string \<Rightarrow> string" where
  "lower s = map lower_char s"

fun starts_with :: "string \<Rightarrow> string \<Rightarrow> bool" where
  "starts_with s [] = True"
| "starts_with [] (k # ks) = False"
| "starts_with (c # cs) (k # ks) = (c = k \<and> starts_with cs ks)"

text \<open>\<^verbatim>\<open>kw in s\<close> on strings.\<close>

fun contains :: "string \<Rightarrow> string \<Rightarrow> bool" where
  "contains kw [] = (kw = [])"
| "contains kw (c # cs) = (starts_with (c # cs) kw \<or> contains kw cs)"

text \<open>\<^verbatim>\<open>s.split(sep)[0]\<close> for a one-character separator.\<close>

definition split_first :: "char \<Rightarrow> string \<Rightarrow> string" where
  "split_first sep s = takeWhile (\<lambda>c. c \<noteq> sep) s"

fun digits :: "nat \<Rightarrow> string" where
  "digits n =
     (if n < 10 then [''0123456789'' ! n]
      else digits (n div 10) @ [''0123456789'' ! (n mod 10)])"

section \<open>The placement engine (optimization.py)\<close>

subsection \<open>Data\<close>

record warehouse =
  warehouse_length :: real
  warehouse_width :: real
  warehouse_height :: real

definition warehouse_volume :: "warehouse \<Rightarrow> real" where
  "warehouse_volume w = warehouse_length w * warehouse_width w * warehouse_height w"

definition grid_resolution :: real where
  "grid_resolution = 0.5"

definition grid_length :: "warehouse \<Rightarrow> int" where
  "grid_length w = py_int (warehouse_length w / grid_resolution)"

definition grid_width :: "warehouse \<Rightarrow> int" where
  "grid_width w = py_int (warehouse_width w / grid_resolution)"

definition grid_height :: "warehouse \<Rightarrow> int" where
  "grid_height w = py_int (warehouse_height w / grid_resolution)"

definition type_distance_constraint :: real where
  "type_distance_constraint = 1.0"

type_synonym position = "real \<times> real \<times> real"

type_synonym box = "real \<times> real \<times> real \<times> real \<times> real \<times> real"

text \<open>One entry of \<^verbatim>\<open>placed_items_tracker\<close>.\<close>

record tracked =
  t_type :: string
  t_position :: position
  t_bounds :: box

text \<open>
  The mutable fields of a \<^verbatim>\<open>WarehouseOptimizer\<close>: the boolean voxel array, read as
  the predicate "voxel \<open>(i, j, k)\<close> is set", and the tracker list.
\<close>

record engine =
  occupancy_grid :: "int \<Rightarrow> int \<Rightarrow> int \<Rightarrow> bool"
  placed_items_tracker :: "tracked list"

text \<open>An item of the request: \<^verbatim>\<open>weight\<close> is optional.\<close>

record item_spec =
  i_name :: string
  i_length :: real
  i_width :: real
  i_height :: real
  i_quantity :: real
  i_weight :: "real option"

text \<open>An entry of \<^verbatim>\<open>calculate_turnover_predictions\<close>.\<close>

record turnover =
  tp_predicted_turnover :: real
  tp_optimal_zone :: string
  tp_access_priority :: real

text \<open>
  One unit, the dictionary built by \<^verbatim>\<open>_prepare_items_with_ml\<close>. The dictionaries are
  shared between the list of all units and the list of placed units and are changed in
  place; \<open>u_ref\<close> is the identity of the dictionary (its index in the list of all
  units), by which the two lists are related. \<open>u_turnover\<close> is \<open>None\<close> for the empty
  dictionary. The call modelled passes no storage types, so \<^verbatim>\<open>storage_optimization\<close>
  is \<^verbatim>\<open>None\<close> on every unit and is left out.
\<close>

record unit_item =
  u_ref :: nat
  u_id :: string
  u_name :: string
  u_length :: real
  u_width :: real
  u_height :: real
  u_volume :: real
  u_weight :: real
  u_placed :: bool
  u_position :: "position option"
  u_rotation :: nat
  u_seasonal_factor :: real
  u_turnover :: "turnover option"

subsection \<open>Type tags\<close>

definition any_keyword :: "string list \<Rightarrow> string \<Rightarrow> bool" where
  "any_keyword kws s = list_ex (\<lambda>kw. contains kw s) kws"

definition get_object_type :: "string \<Rightarrow> string" where
  "get_object_type item_name =
     (let name_lower = lower item_name in
      if any_keyword [''box'', ''carton'', ''package'', ''crate''] name_lower then ''box''
      else if any_keyword [''pallet'', ''skid''] name_lower then ''pallet''
      else if any_keyword [''drum'', ''barrel'', ''container''] name_lower then ''drum''
      else if any_keyword [''rack'', ''shelf'', ''frame''] name_lower then ''rack''
      else if any_keyword [''machinery'', ''equipment'', ''machine''] name_lower
        then ''machinery''
      else if any_keyword [''hazmat'', ''chemical'', ''dangerous''] name_lower then ''hazmat''
      else split_first (CHR '' '') (split_first (CHR ''_'') name_lower))"

subsection \<open>Clearance and collision\<close>

definition axis_gap :: "real \<Rightarrow> real \<Rightarrow> real \<Rightarrow> real \<Rightarrow> real" where
  "axis_gap lo_a hi_a lo_b hi_b = max 0 (max (lo_a - hi_b) (lo_b - hi_a))"

fun box_distance :: "box \<Rightarrow> box \<Rightarrow> real" where
  "box_distance (x_min, y_min, z_min, x_max, y_max, z_max)
                (px_min, py_min, pz_min, px_max, py_max, pz_max) =
     (let dx = axis_gap x_min x_max px_min px_max;
          dy = axis_gap y_min y_max py_min py_max;
          dz = axis_gap z_min z_max pz_min pz_max
      in sqrt (dx * dx + dy * dy + dz * dz))"

fun check_type_distance_constraint :: "tracked list \<Rightarrow> string \<Rightarrow> box \<Rightarrow> bool" where
  "check_type_distance_constraint [] item_type item_bounds = True"
| "check_type_distance_constraint (placed_item # rest) item_type item_bounds =
     (if item_type = t_type placed_item
        then check_type_distance_constraint rest item_type item_bounds
      else if box_distance item_bounds (t_bounds placed_item) < type_distance_constraint
        then False
      else check_type_distance_constraint rest item_type item_bounds)"

text \<open>\<^verbatim>\<open>np.any\<close> of the sub-array selected by three slices.\<close>

definition any_occupied ::
  "warehouse \<Rightarrow> engine \<Rightarrow> int \<Rightarrow> int \<Rightarrow> int \<Rightarrow> int \<Rightarrow> int \<Rightarrow> int \<Rightarrow> bool" where
  "any_occupied w e x_start x_end y_start y_end z_start z_end =
     list_ex (\<lambda>i. list_ex (\<lambda>j. list_ex (\<lambda>k. occupancy_grid e i j k)
                (np_slice (grid_height w) z_start z_end))
              (np_slice (grid_width w) y_start y_end))
       (np_slice (grid_length w) x_start x_end)"

definition can_place_item_at_position ::
  "warehouse \<Rightarrow> engine \<Rightarrow> real \<Rightarrow> real \<Rightarrow> real \<Rightarrow> real \<Rightarrow> real \<Rightarrow> real \<Rightarrow> string \<Rightarrow> bool"
  where
  "can_place_item_at_position w e len wid hei x y z item_type =
     (let x_start = py_int (x / grid_resolution);
          y_start = py_int (y / grid_resolution);
          z_start = py_int (z / grid_resolution);
          x_end = min (py_int ((x + len) / grid_resolution)) (grid_length w);
          y_end = min (py_int ((y + wid) / grid_resolution)) (grid_width w);
          z_end = min (py_int ((z + hei) / grid_resolution)) (grid_height w)
      in if x_end > grid_length w \<or> y_end > grid_width w \<or> z_end > grid_height w
           then False
         else if any_occupied w e x_start x_end y_start y_end z_start z_end then False
         else if item_type \<noteq> [] \<and> placed_items_tracker e \<noteq> [] \<and>
                 \<not> check_type_distance_constraint (placed_items_tracker e) item_type
                     (x, y, z, x + len, y + wid, z + hei)
           then False
         else True)"

definition can_place_item :: "warehouse \<Rightarrow> engine \<Rightarrow> unit_item \<Rightarrow> position \<Rightarrow> bool" where
  "can_place_item w e item pos =
     (case pos of (x, y, z) \<Rightarrow>
        can_place_item_at_position w e (u_length item) (u_width item) (u_height item)
          x y z (get_object_type (u_name item)))"

definition mark_space_occupied :: "warehouse \<Rightarrow> engine \<Rightarrow> unit_item \<Rightarrow> position \<Rightarrow> engine"
  where
  "mark_space_occupied w e item pos =
     (case pos of (x, y, z) \<Rightarrow>
        let x_start = py_int (x / grid_resolution);
            y_start = py_int (y / grid_resolution);
            z_start = py_int (z / grid_resolution);
            x_end = min (py_int ((x + u_length item) / grid_resolution)) (grid_length w);
            y_end = min (py_int ((y + u_width item) / grid_resolution)) (grid_width w);
            z_end = min (py_int ((z + u_height item) / grid_resolution)) (grid_height w);
            xs = np_slice (grid_length w) x_start x_end;
            ys = np_slice (grid_width w) y_start y_end;
            zs = np_slice (grid_height w) z_start z_end
        in \<lparr>occupancy_grid =
              (\<lambda>i j k. (i \<in> set xs \<and> j \<in> set ys \<and> k \<in> set zs) \<or> occupancy_grid e i j k),
            placed_items_tracker = placed_items_tracker e @
              [\<lparr>t_type = get_object_type (u_name item), t_position = pos,
                t_bounds = (x, y, z, x + u_length item, y + u_width item,
                            z + u_height item)\<rparr>]\<rparr>)"

subsection \<open>Searching an origin\<close>

text \<open>
  The three nested \<^verbatim>\<open>for\<close> loops over candidate origins, \<open>x\<close> outermost, returning
  at the first origin that \<^verbatim>\<open>_can_place_item_at_position\<close> accepts.
\<close>

definition scan_origins ::
  "warehouse \<Rightarrow> engine \<Rightarrow> string \<Rightarrow> real \<Rightarrow> real \<Rightarrow> real \<Rightarrow>
   real list \<Rightarrow> real list \<Rightarrow> real list \<Rightarrow> position option" where
  "scan_origins w e item_type rot_length rot_width rot_height xs ys zs =
     first_some (\<lambda>x. first_some (\<lambda>y. first_some (\<lambda>z.
         if can_place_item_at_position w e rot_length rot_width rot_height x y z item_type
         then Some (x, y, z) else None) zs) ys) xs"

text \<open>The update of the unit when the accepted orientation is not the original one.\<close>

definition set_rotation :: "unit_item \<Rightarrow> real \<times> real \<times> real \<Rightarrow> unit_item" where
  "set_rotation item rotation_dims =
     (if rotation_dims \<noteq> (u_length item, u_width item, u_height item)
      then item\<lparr>u_rotation := 90, u_length := fst rotation_dims,
                u_width := fst (snd rotation_dims)\<rparr>
      else item)"

definition rotations :: "unit_item \<Rightarrow> (real \<times> real \<times> real) list" where
  "rotations item =
     [(u_length item, u_width item, u_height item),
      (u_width item, u_length item, u_height item)]"

definition exceeds_warehouse :: "warehouse \<Rightarrow> real \<times> real \<times> real \<Rightarrow> bool" where
  "exceeds_warehouse w rotation_dims =
     (case rotation_dims of (rot_length, rot_width, rot_height) \<Rightarrow>
        rot_length > warehouse_length w \<or> rot_width > warehouse_width w \<or>
        rot_height > warehouse_height w)"

text \<open>
  \<^verbatim>\<open>_find_best_position\<close> returns the origin and changes the unit in place; the model
  returns the origin together with the changed unit.
\<close>

definition find_best_position ::
  "warehouse \<Rightarrow> engine \<Rightarrow> unit_item \<Rightarrow> (position \<times> unit_item) option" where
  "find_best_position w e item =
     (let item_type = get_object_type (u_name item) in
      first_some (\<lambda>rotation_dims.
        case rotation_dims of (rot_length, rot_width, rot_height) \<Rightarrow>
          if exceeds_warehouse w rotation_dims then None
          else map_option (\<lambda>pos. (pos, set_rotation item rotation_dims))
            (scan_origins w e item_type rot_length rot_width rot_height
               (arange 0 (warehouse_length w - rot_length + 0.1) grid_resolution)
               (arange 0 (warehouse_width w - rot_width + 0.1) grid_resolution)
               (arange 0 (warehouse_height w - rot_height + 0.1) grid_resolution)))
        (rotations item))"

text \<open>The search bounds of a hinted zone: \<open>((x_lo, x_hi), (y_lo, y_hi))\<close>.\<close>

definition zone_bounds ::
  "warehouse \<Rightarrow> string \<Rightarrow> real \<times> real \<Rightarrow> real \<times> real \<Rightarrow> (real \<times> real) \<times> (real \<times> real)"
  where
  "zone_bounds w optimal_zone high_access_zone medium_access_zone =
     (if optimal_zone = ''high_access''
        then ((0, fst high_access_zone), (0, snd high_access_zone))
      else if optimal_zone = ''medium_access''
        then ((0, fst medium_access_zone), (snd high_access_zone, snd medium_access_zone))
      else ((fst medium_access_zone, warehouse_length w), (0, warehouse_width w)))"

text \<open>The rotation loop of \<^verbatim>\<open>_find_position_in_zone\<close>, up to its last line.\<close>

definition zone_scan ::
  "warehouse \<Rightarrow> engine \<Rightarrow> unit_item \<Rightarrow> string \<Rightarrow> real \<times> real \<Rightarrow> real \<times> real \<Rightarrow>
   (position \<times> unit_item) option" where
  "zone_scan w e item optimal_zone high_access_zone medium_access_zone =
     (let item_type = get_object_type (u_name item);
          b = zone_bounds w optimal_zone high_access_zone medium_access_zone;
          x_bounds = fst b; y_bounds = snd b in
      first_some (\<lambda>rotation_dims.
        case rotation_dims of (rot_length, rot_width, rot_height) \<Rightarrow>
          if exceeds_warehouse w rotation_dims then None
          else
            let x_start = fst x_bounds;
                x_end = min (snd x_bounds) (warehouse_length w - rot_length + 0.1);
                y_start = fst y_bounds;
                y_end = min (snd y_bounds) (warehouse_width w - rot_width + 0.1)
            in map_option (\<lambda>pos. (pos, set_rotation item rotation_dims))
                 (scan_origins w e item_type rot_length rot_width rot_height
                    (arange x_start x_end grid_resolution)
                    (arange y_start y_end grid_resolution)
                    (arange 0 (warehouse_height w - rot_height + 0.1) grid_resolution)))
        (rotations item))"

definition find_position_in_zone ::
  "warehouse \<Rightarrow> engine \<Rightarrow> unit_item \<Rightarrow> string \<Rightarrow> real \<times> real \<Rightarrow> real \<times> real \<Rightarrow>
   (position \<times> unit_item) option" where
  "find_position_in_zone w e item optimal_zone high_access_zone medium_access_zone =
     (case zone_scan w e item optimal_zone high_access_zone medium_access_zone of
        Some r \<Rightarrow> Some r
      | None \<Rightarrow> find_best_position w e item)"

subsection \<open>The four strategies\<close>

text \<open>
  The body shared by the strategies once an origin is found: the unit gets its position
  and its flag, the grid and the tracker are updated, and the unit joins the placed list.
\<close>

definition place_at ::
  "warehouse \<Rightarrow> engine \<Rightarrow> unit_item list \<Rightarrow> unit_item \<Rightarrow> position \<Rightarrow>
   engine \<times> unit_item list" where
  "place_at w e placed_items item pos =
     (let item' = item\<lparr>u_position := Some pos, u_placed := True\<rparr>
      in (mark_space_occupied w e item' pos, placed_items @ [item']))"

fun bin_packing_loop ::
  "warehouse \<Rightarrow> unit_item list \<Rightarrow> engine \<times> unit_item list \<Rightarrow> engine \<times> unit_item list" where
  "bin_packing_loop w [] s = s"
| "bin_packing_loop w (item # rest) s =
     (case find_best_position w (fst s) item of
        Some (pos, item') \<Rightarrow> bin_packing_loop w rest (place_at w (fst s) (snd s) item' pos)
      | None \<Rightarrow> bin_packing_loop w rest s)"

definition bin_packing_optimization ::
  "warehouse \<Rightarrow> engine \<Rightarrow> unit_item list \<Rightarrow> engine \<times> unit_item list" where
  "bin_packing_optimization w e items =
     bin_packing_loop w (sorted_desc u_volume items) (e, [])"

definition z_order_x :: "int \<Rightarrow> int" where
  "z_order_x i = (push_bit 1 (i AND 1431655765)) OR (drop_bit 1 (i AND 2863311530))"

definition z_order_y :: "int \<Rightarrow> int" where
  "z_order_y i = (push_bit 2 (i AND 858993459)) OR (drop_bit 2 (i AND 3435973836))"

definition generate_z_order_positions :: "warehouse \<Rightarrow> position list" where
  "generate_z_order_positions w =
     concat (map (\<lambda>i.
        let x = z_order_x i; y = z_order_y i; z = 0 :: int;
            x_coord = of_int (x mod grid_length w) * grid_resolution;
            y_coord = of_int (y mod grid_width w) * grid_resolution;
            z_coord = of_int z * grid_resolution
        in if x_coord < warehouse_length w \<and> y_coord < warehouse_width w \<and>
              z_coord < warehouse_height w
           then [(x_coord, y_coord, z_coord)] else [])
       [0..min 1000 (grid_length w * grid_width w) - 1])"

fun space_filling_loop ::
  "warehouse \<Rightarrow> position list \<Rightarrow> unit_item list \<Rightarrow> engine \<times> unit_item list \<Rightarrow>
   engine \<times> unit_item list" where
  "space_filling_loop w positions [] s = s"
| "space_filling_loop w positions (item # rest) s =
     (case find (can_place_item w (fst s) item) positions of
        Some pos \<Rightarrow> space_filling_loop w positions rest (place_at w (fst s) (snd s) item pos)
      | None \<Rightarrow> space_filling_loop w positions rest s)"

definition space_filling_optimization ::
  "warehouse \<Rightarrow> engine \<Rightarrow> unit_item list \<Rightarrow> engine \<times> unit_item list" where
  "space_filling_optimization w e items =
     space_filling_loop w (generate_z_order_positions w) (sorted_desc u_volume items) (e, [])"

definition hybrid_optimization ::
  "warehouse \<Rightarrow> engine \<Rightarrow> unit_item list \<Rightarrow> engine \<times> unit_item list" where
  "hybrid_optimization w e items =
     (let large_items = filter (\<lambda>item. u_volume item > warehouse_volume w * 0.01) items;
          small_items = filter (\<lambda>item. u_volume item \<le> warehouse_volume w * 0.01) items;
          large = bin_packing_optimization w e large_items;
          small = space_filling_optimization w (fst large) small_items
      in (fst small, snd large @ snd small))"

definition get_access_priority :: "unit_item \<Rightarrow> real" where
  "get_access_priority item =
     (case u_turnover item of None \<Rightarrow> 0.5 | Some t \<Rightarrow> tp_access_priority t)"

definition hinted_zone :: "unit_item \<Rightarrow> string" where
  "hinted_zone item =
     (case u_turnover item of None \<Rightarrow> ''low_access'' | Some t \<Rightarrow> tp_optimal_zone t)"

fun ml_enhanced_loop ::
  "warehouse \<Rightarrow> unit_item list \<Rightarrow> engine \<times> unit_item list \<Rightarrow> engine \<times> unit_item list" where
  "ml_enhanced_loop w [] s = s"
| "ml_enhanced_loop w (item # rest) s =
     (let high_access_zone = (warehouse_length w * 0.3, warehouse_width w * 0.4);
          medium_access_zone = (warehouse_length w * 0.6, warehouse_width w * 0.8)
      in case find_position_in_zone w (fst s) item (hinted_zone item)
                high_access_zone medium_access_zone of
           Some (pos, item') \<Rightarrow> ml_enhanced_loop w rest (place_at w (fst s) (snd s) item' pos)
         | None \<Rightarrow> ml_enhanced_loop w rest s)"

definition ml_enhanced_optimization ::
  "warehouse \<Rightarrow> engine \<Rightarrow> unit_item list \<Rightarrow> engine \<times> unit_item list" where
  "ml_enhanced_optimization w e items =
     ml_enhanced_loop w (sorted_desc get_access_priority items) (e, [])"

section \<open>The rule-based predictor (ml_predictor.py)\<close>

text \<open>
  The predictor reads the clock: \<^verbatim>\<open>datetime.now().month\<close> is the parameter
  \<open>current_month\<close> of the model.
\<close>

definition get_winter_factor :: "int \<Rightarrow> real" where
  "get_winter_factor current_month =
     (if current_month \<in> {12, 1, 2} then 1.5
      else if current_month \<in> {3, 4, 10, 11} then 1.2
      else 0.7)"

definition get_summer_factor :: "int \<Rightarrow> real" where
  "get_summer_factor current_month =
     (if current_month \<in> {6, 7, 8} then 1.5
      else if current_month \<in> {5, 9} then 1.2
      else 0.7)"

definition seasonal_factor_of :: "int \<Rightarrow> string \<Rightarrow> real" where
  "seasonal_factor_of current_month item_name =
     (if contains ''seasonal'' (lower item_name) \<or> contains ''winter'' (lower item_name)
        then get_winter_factor current_month
      else if contains ''summer'' (lower item_name) then get_summer_factor current_month
      else 1.0)"

definition predict_seasonal_demand :: "int \<Rightarrow> item_spec list \<Rightarrow> (string \<rightharpoonup> real)" where
  "predict_seasonal_demand current_month items =
     fold (\<lambda>item seasonal_factors.
             seasonal_factors(i_name item \<mapsto> seasonal_factor_of current_month (i_name item)))
       items Map.empty"

definition turnover_of :: "item_spec \<Rightarrow> turnover" where
  "turnover_of item =
     (let item_volume = i_length item * i_width item * i_height item;
          weight = (case i_weight item of Some x \<Rightarrow> x | None \<Rightarrow> 0);
          base_turnover = max 0.1 (1.0 - item_volume / 10.0 - weight / 1000.0);
          predicted = base_turnover;
          placement_zone = (if predicted > 0.7 then ''high_access''
                            else if predicted > 0.4 then ''medium_access''
                            else ''low_access'')
      in \<lparr>tp_predicted_turnover = predicted, tp_optimal_zone = placement_zone,
          tp_access_priority = predicted\<rparr>)"

definition calculate_turnover_predictions :: "item_spec list \<Rightarrow> (string \<rightharpoonup> turnover)" where
  "calculate_turnover_predictions items =
     fold (\<lambda>item turnover_data. turnover_data(i_name item \<mapsto> turnover_of item))
       items Map.empty"

text \<open>
  \<^verbatim>\<open>predict_optimal_algorithm\<close> runs inside \<^verbatim>\<open>try\<close>; the one exception validated
  numbers can raise there is the division by a zero warehouse volume, which the handler
  turns into the default. There is no historical data, so the fallback rules decide.
\<close>

definition predict_optimal_algorithm :: "warehouse \<Rightarrow> item_spec list \<Rightarrow> string" where
  "predict_optimal_algorithm w items =
     (let total_item_volume =
            sum_list (map (\<lambda>i. i_length i * i_width i * i_height i * i_quantity i) items)
      in if warehouse_volume w = 0 then ''bin_packing''
         else
           let volume_ratio = total_item_volume / warehouse_volume w;
               item_count = sum_list (map i_quantity items);
               item_variety = length (remdups (map i_name items));
               avg_item_size = (if item_count > 0 then total_item_volume / item_count else 0)
           in if volume_ratio > 0.8 then ''hybrid''
              else if item_variety > 10 \<and> avg_item_size < warehouse_volume w / 100
                then ''space_filling''
              else ''bin_packing'')"

section \<open>Preparing the units (optimization.py)\<close>

definition adjusted_quantity :: "real \<Rightarrow> real \<Rightarrow> int" where
  "adjusted_quantity original_quantity seasonal_factor =
     max 1 (py_int (original_quantity * seasonal_factor))"

text \<open>
  The copy of an item with its quantity replaced, paired with the value stored under
  \<^verbatim>\<open>seasonal_factor\<close>.
\<close>

definition apply_seasonal_adjustments ::
  "item_spec list \<Rightarrow> (string \<rightharpoonup> real) \<Rightarrow> (item_spec \<times> real) list" where
  "apply_seasonal_adjustments items seasonal_predictions =
     map (\<lambda>item.
            let seasonal_factor =
                  (case seasonal_predictions (i_name item) of Some f \<Rightarrow> f | None \<Rightarrow> 1.0)
            in (item\<lparr>i_quantity :=
                       of_int (adjusted_quantity (i_quantity item) seasonal_factor)\<rparr>,
                seasonal_factor))
       items"

text \<open>
  The dictionary of the unit with quantity index \<open>i\<close>, before its identity is assigned.
\<close>

definition processed_item :: "(string \<rightharpoonup> turnover) \<Rightarrow> item_spec \<Rightarrow> real \<Rightarrow> nat \<Rightarrow> unit_item"
  where
  "processed_item turnover_predictions item seasonal_factor i =
     \<lparr>u_ref = 0,
      u_id = i_name item @ ''_'' @ digits (i + 1),
      u_name = i_name item,
      u_length = i_length item,
      u_width = i_width item,
      u_height = i_height item,
      u_volume = i_length item * i_width item * i_height item,
      u_weight = (case i_weight item of Some x \<Rightarrow> x | None \<Rightarrow> 0),
      u_placed = False,
      u_position = None,
      u_rotation = 0,
      u_seasonal_factor = seasonal_factor,
      u_turnover = turnover_predictions (i_name item)\<rparr>"

definition units_of :: "(string \<rightharpoonup> turnover) \<Rightarrow> item_spec \<times> real \<Rightarrow> unit_item list" where
  "units_of turnover_predictions adjusted =
     (case adjusted of (item, seasonal_factor) \<Rightarrow>
        map (processed_item turnover_predictions item seasonal_factor)
          [0..<nat (py_int (i_quantity item))])"

definition prepare_items_with_ml ::
  "(item_spec \<times> real) list \<Rightarrow> (string \<rightharpoonup> turnover) \<Rightarrow> unit_item list" where
  "prepare_items_with_ml items turnover_predictions =
     map (\<lambda>(r, u). u\<lparr>u_ref := r\<rparr>)
       (enumerate 0 (concat (map (units_of turnover_predictions) items)))"

section \<open>Picking paths and workflow analysis (picking_optimizer.py)\<close>

subsection \<open>Zones\<close>

record zone =
  z_name :: string
  x_min :: real
  x_max :: real
  y_min :: real
  y_max :: real
  z_priority :: nat
  z_access_type :: string

text \<open>The dictionary of zones, in its insertion order.\<close>

definition define_warehouse_zones :: "warehouse \<Rightarrow> zone list" where
  "define_warehouse_zones w =
     [\<lparr>z_name = ''high_velocity'',
       x_min = 0, x_max = warehouse_length w * 0.3,
       y_min = 0, y_max = warehouse_width w * 0.4,
       z_priority = 1, z_access_type = ''high''\<rparr>,
      \<lparr>z_name = ''medium_velocity'',
       x_min = 0, x_max = warehouse_length w * 0.6,
       y_min = warehouse_width w * 0.4, y_max = warehouse_width w * 0.8,
       z_priority = 2, z_access_type = ''medium''\<rparr>,
      \<lparr>z_name = ''low_velocity'',
       x_min = warehouse_length w * 0.6, x_max = warehouse_length w,
       y_min = 0, y_max = warehouse_width w,
       z_priority = 3, z_access_type = ''low''\<rparr>,
      \<lparr>z_name = ''bulk_storage'',
       x_min = warehouse_length w * 0.3, x_max = warehouse_length w * 0.6,
       y_min = 0, y_max = warehouse_width w * 0.4,
       z_priority = 4, z_access_type = ''bulk''\<rparr>]"

text \<open>
  The picking module reads two keys of a placed unit: its name and its position, which
  is a coordinate triple.
\<close>

record pick_item =
  p_name :: string
  p_position :: position

definition in_bounds :: "zone \<Rightarrow> position \<Rightarrow> bool" where
  "in_bounds zn pos =
     (case pos of (x, y, z) \<Rightarrow>
        x_min zn \<le> x \<and> x \<le> x_max zn \<and> y_min zn \<le> y \<and> y \<le> y_max zn)"

definition get_item_zone :: "warehouse \<Rightarrow> pick_item \<Rightarrow> string" where
  "get_item_zone w item =
     (case find (\<lambda>zn. in_bounds zn (p_position item)) (define_warehouse_zones w) of
        Some zn \<Rightarrow> z_name zn
      | None \<Rightarrow> ''unassigned'')"

definition get_items_in_zone :: "pick_item list \<Rightarrow> zone \<Rightarrow> pick_item list" where
  "get_items_in_zone items zn = filter (\<lambda>item. in_bounds zn (p_position item)) items"

definition calculate_zone_area :: "zone \<Rightarrow> real" where
  "calculate_zone_area zn = (x_max zn - x_min zn) * (y_max zn - y_min zn)"

text \<open>\<^verbatim>\<open>self.zones.get(zone, {}).get(key, default)\<close>.\<close>

definition zone_named :: "warehouse \<Rightarrow> string \<Rightarrow> zone option" where
  "zone_named w nm = find (\<lambda>zn. z_name zn = nm) (define_warehouse_zones w)"

definition priority_of :: "warehouse \<Rightarrow> string \<Rightarrow> nat" where
  "priority_of w nm = (case zone_named w nm of Some zn \<Rightarrow> z_priority zn | None \<Rightarrow> 99)"

subsection \<open>The path\<close>

definition calculate_distance :: "position \<Rightarrow> position \<Rightarrow> real" where
  "calculate_distance pos1 pos2 =
     (case pos1 of (x1, y1, z1) \<Rightarrow> case pos2 of (x2, y2, z2) \<Rightarrow>
        sqrt ((x1 - x2)\<^sup>2 + (y1 - y2)\<^sup>2))"

fun calculate_total_distance :: "position list \<Rightarrow> real" where
  "calculate_total_distance (a # b # rest) =
     calculate_distance a b + calculate_total_distance (b # rest)"
| "calculate_total_distance waypoints = 0"

text \<open>
  The loop of \<^verbatim>\<open>_nearest_neighbor_path\<close>: \<open>path\<close> is never empty there, and every
  round removes one element of \<open>unvisited\<close>.
\<close>

function nearest_neighbor_loop :: "pick_item list \<Rightarrow> pick_item list \<Rightarrow> pick_item list" where
  "nearest_neighbor_loop path unvisited =
     (if unvisited = [] then path
      else
        let current = last path;
            nearest = arg_min_list
              (\<lambda>item. calculate_distance (p_position current) (p_position item)) unvisited
        in nearest_neighbor_loop (path @ [nearest]) (remove1 nearest unvisited))"
  by pat_completeness auto
termination
proof (relation "measure (\<lambda>(path, unvisited). length unvisited)")
  show "wf (measure (\<lambda>(path, unvisited). length unvisited))"
    by simp
next
  fix path unvisited :: "pick_item list" and current nearest
  assume ne: "unvisited \<noteq> []"
    and "current = last path"
    and n: "nearest = arg_min_list
              (\<lambda>item. calculate_distance (p_position current) (p_position item)) unvisited"
  from ne n have "nearest \<in> set unvisited"
    by (simp add: arg_min_list_in)
  then have "length (remove1 nearest unvisited) = length unvisited - 1"
    by (simp add: length_remove1)
  moreover from ne have "0 < length unvisited"
    by simp
  ultimately have "length (remove1 nearest unvisited) < length unvisited"
    by arith
  then show "((path @ [nearest], remove1 nearest unvisited), (path, unvisited))
      \<in> measure (\<lambda>(path, unvisited). length unvisited)"
    by simp
qed

definition nearest_neighbor_path :: "pick_item list \<Rightarrow> pick_item list" where
  "nearest_neighbor_path items =
     (case items of
        [] \<Rightarrow> items
      | [a] \<Rightarrow> items
      | a # rest \<Rightarrow> nearest_neighbor_loop [a] rest)"

text \<open>\<^verbatim>\<open>zone_groups\<close>: a dictionary of lists, in the order the zones first occur.\<close>

fun add_to_group ::
  "string \<Rightarrow> pick_item \<Rightarrow> (string \<times> pick_item list) list \<Rightarrow> (string \<times> pick_item list) list"
  where
  "add_to_group zn item [] = [(zn, [item])]"
| "add_to_group zn item ((k, members) # groups) =
     (if k = zn then (k, members @ [item]) # groups
      else (k, members) # add_to_group zn item groups)"

definition group_by_zone :: "warehouse \<Rightarrow> pick_item list \<Rightarrow> (string \<times> pick_item list) list"
  where
  "group_by_zone w items =
     fold (\<lambda>item groups. add_to_group (get_item_zone w item) item groups) items []"

definition optimize_zone_sequence :: "warehouse \<Rightarrow> string list \<Rightarrow> string list" where
  "optimize_zone_sequence w zones =
     (if length zones \<le> 1 then zones else sort_key (priority_of w) zones)"

record path_data =
  waypoints :: "position list"
  zone_sequence :: "string list"
  path_segments :: "(position \<times> position \<times> real) list"

definition segments_of :: "pick_item list \<Rightarrow> (position \<times> position \<times> real) list" where
  "segments_of zone_path =
     map (\<lambda>i. (p_position (zone_path ! i), p_position (zone_path ! (i + 1)),
               calculate_distance (p_position (zone_path ! i))
                 (p_position (zone_path ! (i + 1)))))
       [0..<length zone_path - 1]"

definition calculate_optimal_path :: "warehouse \<Rightarrow> pick_item list \<Rightarrow> path_data" where
  "calculate_optimal_path w items_to_pick =
     (case items_to_pick of
        [] \<Rightarrow> \<lparr>waypoints = [], zone_sequence = [], path_segments = []\<rparr>
      | [a] \<Rightarrow> \<lparr>waypoints = [p_position a], zone_sequence = [get_item_zone w a],
                path_segments = []\<rparr>
      | _ \<Rightarrow>
          let zone_groups = group_by_zone w items_to_pick;
              zone_seq = optimize_zone_sequence w (map fst zone_groups);
              zone_paths = map (\<lambda>zn.
                case map_of zone_groups zn of
                  Some zone_items \<Rightarrow>
                    if length zone_items = 1 then zone_items
                    else nearest_neighbor_path zone_items
                | None \<Rightarrow> []) zone_seq
          in \<lparr>waypoints = map p_position (concat zone_paths),
              zone_sequence = zone_seq,
              path_segments = concat (map (\<lambda>zone_path.
                 if length zone_path = 1 then [] else segments_of zone_path) zone_paths)\<rparr>)"

definition walking_speed :: real where
  "walking_speed = 1.5"

definition picking_time :: real where
  "picking_time = 15"

definition zone_transition_time :: real where
  "zone_transition_time = 10"

definition calculate_picking_time :: "path_data \<Rightarrow> nat \<Rightarrow> real" where
  "calculate_picking_time pd item_count =
     (let total_distance = calculate_total_distance (waypoints pd);
          walking_time = total_distance / walking_speed;
          picking = real item_count * picking_time;
          zone_transitions = int (length (zone_sequence pd)) - 1;
          transition_time = of_int zone_transitions * zone_transition_time
      in (walking_time + picking + transition_time) / 60)"

text \<open>
  The centre is a coordinate pair in the source; only the first two coordinates of a
  position enter a distance, so the model pads it with a third.
\<close>

definition minimum_spanning_tree_distance :: "position list \<Rightarrow> real" where
  "minimum_spanning_tree_distance positions =
     (if length positions < 2 then 0
      else
        let x_coords = map fst positions;
            y_coords = map (\<lambda>pos. fst (snd pos)) positions;
            center_x = sum_list x_coords / real (length x_coords);
            center_y = sum_list y_coords / real (length y_coords)
        in sum_list (map (\<lambda>pos. calculate_distance (center_x, center_y, 0) pos) positions))"

definition calculate_path_efficiency :: "path_data \<Rightarrow> pick_item list \<Rightarrow> real" where
  "calculate_path_efficiency pd items =
     (if items = [] then 0
      else
        let positions = map p_position items in
        if length positions < 2 then 100
        else
          let min_distance = minimum_spanning_tree_distance positions;
              actual_distance = calculate_total_distance (waypoints pd)
          in if min_distance = 0 then 100
             else min 100 (max 0 (min_distance / actual_distance * 100)))"

text \<open>An entry of \<^verbatim>\<open>_organize_by_zones\<close>.\<close>

record zone_group =
  g_zone_name :: string
  g_items :: "pick_item list"
  g_item_count :: nat
  g_priority :: nat

definition organize_by_zones :: "warehouse \<Rightarrow> pick_item list \<Rightarrow> zone_group list" where
  "organize_by_zones w items =
     map (\<lambda>(zn, members).
            \<lparr>g_zone_name = zn, g_items = members, g_item_count = length members,
             g_priority = priority_of w zn\<rparr>)
       (group_by_zone w items)"

text \<open>
  The result of \<^verbatim>\<open>optimize_picking_path\<close>. Its keys \<^verbatim>\<open>zone_sequence\<close> and \<^verbatim>\<open>waypoints\<close>
  repeat the fields of the path and are read from \<open>pr_path_data\<close>.
\<close>

record picking_result =
  pr_path_data :: path_data
  pr_total_distance :: real
  pr_estimated_time :: real
  pr_path_efficiency :: real
  pr_picking_zones :: "zone_group list"
  pr_items_to_pick :: nat

definition empty_path_result :: picking_result where
  "empty_path_result =
     \<lparr>pr_path_data = \<lparr>waypoints = [], zone_sequence = [], path_segments = []\<rparr>,
      pr_total_distance = 0, pr_estimated_time = 0, pr_path_efficiency = 0,
      pr_picking_zones = [], pr_items_to_pick = 0\<rparr>"

text \<open>The units a call picks: \<^verbatim>\<open>pick_list\<close> absent or empty selects every name.\<close>

definition items_to_pick :: "pick_item list \<Rightarrow> string list option \<Rightarrow> pick_item list" where
  "items_to_pick placed_items pick_list =
     (let names = (case pick_list of
                     None \<Rightarrow> map p_name placed_items
                   | Some [] \<Rightarrow> map p_name placed_items
                   | Some l \<Rightarrow> l)
      in filter (\<lambda>item. p_name item \<in> set names) placed_items)"

definition optimize_picking_path ::
  "warehouse \<Rightarrow> pick_item list \<Rightarrow> string list option \<Rightarrow> picking_result" where
  "optimize_picking_path w placed_items pick_list =
     (let picked = items_to_pick placed_items pick_list
      in if picked = [] then empty_path_result
         else
           let optimal_path = calculate_optimal_path w picked;
               total_distance = calculate_total_distance (waypoints optimal_path);
               estimated_time = calculate_picking_time optimal_path (length picked);
               efficiency = calculate_path_efficiency optimal_path picked
           in \<lparr>pr_path_data = optimal_path,
               pr_total_distance = py_round total_distance 2,
               pr_estimated_time = py_round estimated_time 2,
               pr_path_efficiency = py_round efficiency 2,
               pr_picking_zones = organize_by_zones w picked,
               pr_items_to_pick = length picked\<rparr>)"

subsection \<open>Workflow analysis\<close>

definition np_mean :: "real list \<Rightarrow> real" where
  "np_mean xs = sum_list xs / real (length xs)"

definition np_var :: "real list \<Rightarrow> real" where
  "np_var xs = np_mean (map (\<lambda>x. (x - np_mean xs)\<^sup>2) xs)"

fun bump :: "string \<Rightarrow> (string \<times> nat) list \<Rightarrow> (string \<times> nat) list" where
  "bump zn [] = [(zn, 1)]"
| "bump zn ((k, c) # d) = (if k = zn then (k, c + 1) # d else (k, c) # bump zn d)"

record layout_efficiency =
  le_overall :: real
  le_zone_balance :: real
  le_accessibility :: real

definition analyze_layout_efficiency :: "warehouse \<Rightarrow> pick_item list \<Rightarrow> layout_efficiency"
  where
  "analyze_layout_efficiency w placed_items =
     (if placed_items = []
        then \<lparr>le_overall = 0, le_zone_balance = 0, le_accessibility = 0\<rparr>
      else
        let zone_distribution =
              fold (\<lambda>item d. bump (get_item_zone w item) d) placed_items [];
            vals = map (\<lambda>kc. real (snd kc)) zone_distribution;
            balance_score =
              (if length zone_distribution > 1
               then max 0 (100 - np_var vals / np_mean vals * 10) else 50);
            high_access_items = length (filter (\<lambda>item.
               map_option z_access_type (zone_named w (get_item_zone w item)) = Some ''high'')
               placed_items);
            accessibility_score = real high_access_items / real (length placed_items) * 100;
            overall_score = (balance_score + accessibility_score) / 2
        in \<lparr>le_overall = py_round overall_score 2,
            le_zone_balance = py_round balance_score 2,
            le_accessibility = py_round accessibility_score 2\<rparr>)"

text \<open>A division of the source: by zero it raises.\<close>

definition py_div :: "real \<Rightarrow> real \<Rightarrow> py_error + real" where
  "py_div a b = (if b = 0 then Inl ZeroDivisionError else Inr (a / b))"

text \<open>A loop whose body may raise: the first exception ends it.\<close>

fun map_raising :: "('a \<Rightarrow> py_error + 'b) \<Rightarrow> 'a list \<Rightarrow> py_error + 'b list" where
  "map_raising f [] = Inr []"
| "map_raising f (x # xs) =
     (case f x of
        Inl err \<Rightarrow> Inl err
      | Inr y \<Rightarrow> (case map_raising f xs of Inl err \<Rightarrow> Inl err | Inr ys \<Rightarrow> Inr (y # ys)))"

record picking_density =
  pd_overall_density :: real
  pd_zone_densities :: "(string \<times> real) list"
  pd_density_variance :: real

definition calculate_picking_density ::
  "warehouse \<Rightarrow> pick_item list \<Rightarrow> py_error + picking_density" where
  "calculate_picking_density w placed_items =
     (let total_area = warehouse_length w * warehouse_width w in
      case py_div (real (length placed_items)) total_area of
        Inl err \<Rightarrow> Inl err
      | Inr item_density \<Rightarrow>
          (case map_raising (\<lambda>zn.
                  case py_div (real (length (get_items_in_zone placed_items zn)))
                         (calculate_zone_area zn) of
                    Inl err \<Rightarrow> Inl err
                  | Inr d \<Rightarrow> Inr (z_name zn, d)) (define_warehouse_zones w) of
             Inl err \<Rightarrow> Inl err
           | Inr zone_densities \<Rightarrow>
               Inr \<lparr>pd_overall_density = py_round item_density 4,
                    pd_zone_densities = map (\<lambda>(k, v). (k, py_round v 4)) zone_densities,
                    pd_density_variance = py_round (np_var (map snd zone_densities)) 4\<rparr>))"

record zone_traffic =
  zt_zone :: string
  zt_traffic_score :: real
  zt_congestion_risk :: string

record traffic_analysis =
  ta_zone_traffic :: "zone_traffic list"
  ta_peak_zones :: "string list"

definition estimate_traffic_patterns :: "warehouse \<Rightarrow> pick_item list \<Rightarrow> traffic_analysis"
  where
  "estimate_traffic_patterns w placed_items =
     (let zone_traffic = map (\<lambda>zn.
            let base_traffic = real (length (get_items_in_zone placed_items zn));
                priority_multiplier = 1.0 / real (z_priority zn);
                traffic_score = base_traffic * priority_multiplier
            in \<lparr>zt_zone = z_name zn,
                zt_traffic_score = py_round traffic_score 2,
                zt_congestion_risk =
                  (if traffic_score > 10 then ''high''
                   else if traffic_score > 5 then ''medium'' else ''low'')\<rparr>)
          (define_warehouse_zones w)
      in \<lparr>ta_zone_traffic = zone_traffic,
          ta_peak_zones = take 3 (map zt_zone (sorted_desc zt_traffic_score zone_traffic))\<rparr>)"

text \<open>
  A bottleneck; its description is rendered from the location and, for a crowded zone,
  the density kept in \<open>b_density\<close>.
\<close>

record bottleneck =
  b_type :: string
  b_location :: string
  b_severity :: string
  b_density :: "real option"
  b_items_affected :: nat

definition identify_bottlenecks :: "warehouse \<Rightarrow> pick_item list \<Rightarrow> py_error + bottleneck list"
  where
  "identify_bottlenecks w placed_items =
     (case map_raising (\<lambda>zn.
             let items_in_zone = get_items_in_zone placed_items zn;
                 zone_area = calculate_zone_area zn
             in if length items_in_zone > 0
                then (case py_div (real (length items_in_zone)) zone_area of
                        Inl err \<Rightarrow> Inl err
                      | Inr density \<Rightarrow>
                          Inr (if density > 0.3
                               then [\<lparr>b_type = ''high_density'', b_location = z_name zn,
                                      b_severity = (if density > 0.5 then ''high''
                                                    else ''medium''),
                                      b_density = Some density,
                                      b_items_affected = length items_in_zone\<rparr>]
                               else []))
                else Inr []) (define_warehouse_zones w) of
        Inl err \<Rightarrow> Inl err
      | Inr crowded \<Rightarrow>
          Inr (concat crowded @
               (if warehouse_width w < 6
                then [\<lparr>b_type = ''narrow_aisle'', b_location = ''warehouse_layout'',
                       b_severity = ''medium'', b_density = None,
                       b_items_affected = length placed_items\<rparr>]
                else [])))"

text \<open>The three scores blended by \<^verbatim>\<open>_calculate_overall_efficiency_score\<close>.\<close>

definition density_score :: "picking_density \<Rightarrow> real" where
  "density_score pd = max 0 (100 - \<bar>pd_overall_density pd - 0.15\<bar> * 500)"

definition traffic_score :: "traffic_analysis \<Rightarrow> int" where
  "traffic_score ta = max 0 (100 - int (length (ta_peak_zones ta)) * 20)"

definition calculate_overall_efficiency_score ::
  "layout_efficiency \<Rightarrow> picking_density \<Rightarrow> traffic_analysis \<Rightarrow> real" where
  "calculate_overall_efficiency_score le pd ta =
     py_round (le_overall le * 0.4 + density_score pd * 0.3 + of_int (traffic_score ta) * 0.3) 2"

text \<open>
  The improvement suggestions are fixed sentences, one per rule; the one for a severe
  bottleneck quotes the bottleneck's type and description.
\<close>

datatype suggestion =
  Rebalance_distribution
| Move_to_high_access
| Redistribute_traffic
| Address bottleneck
| Well_optimized

definition generate_improvement_suggestions ::
  "layout_efficiency \<Rightarrow> traffic_analysis \<Rightarrow> bottleneck list \<Rightarrow> suggestion list" where
  "generate_improvement_suggestions le ta bottlenecks =
     (let suggestions =
            (if le_zone_balance le < 70 then [Rebalance_distribution] else []) @
            (if le_accessibility le < 60 then [Move_to_high_access] else []) @
            (if length (ta_peak_zones ta) > 2 then [Redistribute_traffic] else []) @
            map Address (filter (\<lambda>b. b_severity b = ''high'') bottlenecks)
      in if suggestions = [] then [Well_optimized] else suggestions)"

record workflow_efficiency =
  wf_layout_efficiency :: layout_efficiency
  wf_picking_density :: picking_density
  wf_traffic_analysis :: traffic_analysis
  wf_bottlenecks :: "bottleneck list"
  wf_overall_score :: real
  wf_improvement_suggestions :: "suggestion list"

definition calculate_workflow_efficiency ::
  "warehouse \<Rightarrow> pick_item list \<Rightarrow> py_error + workflow_efficiency" where
  "calculate_workflow_efficiency w placed_items =
     (let le = analyze_layout_efficiency w placed_items in
      case calculate_picking_density w placed_items of
        Inl err \<Rightarrow> Inl err
      | Inr pd \<Rightarrow>
          let ta = estimate_traffic_patterns w placed_items in
          (case identify_bottlenecks w placed_items of
             Inl err \<Rightarrow> Inl err
           | Inr bottlenecks \<Rightarrow>
               Inr \<lparr>wf_layout_efficiency = le,
                    wf_picking_density = pd,
                    wf_traffic_analysis = ta,
                    wf_bottlenecks = bottlenecks,
                    wf_overall_score = calculate_overall_efficiency_score le pd ta,
                    wf_improvement_suggestions =
                      generate_improvement_suggestions le ta bottlenecks\<rparr>))"

subsection \<open>Zone layout\<close>

record zone_analysis =
  za_zone :: string
  za_item_count :: nat
  za_density :: real
  za_access_points :: int
  za_avg_picking_time :: real
  za_items :: "string list"

text \<open>A recommendation; its message is rendered from the zone name and the type.\<close>

record zone_recommendation =
  zr_zone :: string
  zr_type :: string
  zr_priority :: string

record zone_optimization =
  zo_zone_analysis :: "zone_analysis list"
  zo_recommendations :: "zone_recommendation list"
  zo_total_zones :: nat
  zo_optimal_flow :: "string list"

definition calculate_access_points :: "zone \<Rightarrow> int" where
  "calculate_access_points zn =
     (let perimeter = 2 * (x_max zn - x_min zn) + 2 * (y_max zn - y_min zn)
      in max 1 (py_int (perimeter / 10)))"

definition estimate_zone_picking_time :: "pick_item list \<Rightarrow> real" where
  "estimate_zone_picking_time items =
     (if items = [] then 0
      else
        let base_time = real (length items) * picking_time;
            movement_time =
              (if length items > 1 then (real (length items) - 1) * (5.0 / walking_speed)
               else 0)
        in (base_time + movement_time) / 60)"

definition generate_zone_recommendations :: "zone_analysis list \<Rightarrow> zone_recommendation list"
  where
  "generate_zone_recommendations analysis =
     concat (map (\<lambda>a.
        (if za_density a > 0.5
         then [\<lparr>zr_zone = za_zone a, zr_type = ''density_optimization'',
                zr_priority = ''high''\<rparr>] else []) @
        (if za_avg_picking_time a > 10
         then [\<lparr>zr_zone = za_zone a, zr_type = ''efficiency_improvement'',
                zr_priority = ''medium''\<rparr>] else [])) analysis)"

definition calculate_optimal_flow :: "warehouse \<Rightarrow> zone_analysis list \<Rightarrow> string list" where
  "calculate_optimal_flow w analysis =
     map za_zone (sorted_desc
       (\<lambda>a. real (za_item_count a) / real (priority_of w (za_zone a))) analysis)"

definition optimize_zone_layout :: "warehouse \<Rightarrow> pick_item list \<Rightarrow> py_error + zone_optimization"
  where
  "optimize_zone_layout w placed_items =
     (case map_raising (\<lambda>zn.
             let items_in_zone = get_items_in_zone placed_items zn in
             case py_div (real (length items_in_zone)) (calculate_zone_area zn) of
               Inl err \<Rightarrow> Inl err
             | Inr density \<Rightarrow>
                 Inr \<lparr>za_zone = z_name zn,
                      za_item_count = length items_in_zone,
                      za_density = density,
                      za_access_points = calculate_access_points zn,
                      za_avg_picking_time = estimate_zone_picking_time items_in_zone,
                      za_items = map p_name items_in_zone\<rparr>) (define_warehouse_zones w) of
        Inl err \<Rightarrow> Inl err
      | Inr analysis \<Rightarrow>
          Inr \<lparr>zo_zone_analysis = analysis,
               zo_recommendations = generate_zone_recommendations analysis,
               zo_total_zones = length (define_warehouse_zones w),
               zo_optimal_flow = calculate_optimal_flow w analysis\<rparr>)"

section \<open>One call of optimize (optimization.py)\<close>

record metrics =
  m_utilization :: real
  m_efficiency :: real
  m_items_placed :: nat
  m_items_total :: nat
  m_volume_used :: "real option"
  m_volume_total :: "real option"

definition calculate_metrics ::
  "warehouse \<Rightarrow> unit_item list \<Rightarrow> unit_item list \<Rightarrow> py_error + metrics" where
  "calculate_metrics w placed_items total_items =
     (if total_items = []
        then Inr \<lparr>m_utilization = 0, m_efficiency = 0, m_items_placed = 0, m_items_total = 0,
                  m_volume_used = None, m_volume_total = None\<rparr>
      else
        let placed_volume = sum_list (map u_volume placed_items) in
        case py_div placed_volume (warehouse_volume w) of
          Inl err \<Rightarrow> Inl err
        | Inr ratio \<Rightarrow>
            let utilization = ratio * 100;
                efficiency = real (length placed_items) / real (length total_items) * 100
            in Inr \<lparr>m_utilization = py_round utilization 2,
                    m_efficiency = py_round efficiency 2,
                    m_items_placed = length placed_items,
                    m_items_total = length total_items,
                    m_volume_used = Some (py_round placed_volume 2),
                    m_volume_total = Some (py_round (warehouse_volume w) 2)\<rparr>)"

text \<open>
  The picking module's view of the placed units. Reading the coordinates of a position
  that is \<^verbatim>\<open>None\<close> raises.
\<close>

definition pick_view :: "unit_item list \<Rightarrow> py_error + pick_item list" where
  "pick_view placed_items =
     map_raising (\<lambda>item.
        case u_position item of
          None \<Rightarrow> Inl TypeError
        | Some pos \<Rightarrow> Inr \<lparr>p_name = u_name item, p_position = pos\<rparr>) placed_items"

text \<open>
  The list of all units as it stands after a strategy has run: the dictionaries that were
  placed carry the changes made to them.
\<close>

definition write_back :: "unit_item list \<Rightarrow> unit_item list \<Rightarrow> unit_item list" where
  "write_back all_items placed_items =
     map (\<lambda>u. case find (\<lambda>p. u_ref p = u_ref u) placed_items of
                 Some p \<Rightarrow> p
               | None \<Rightarrow> u) all_items"

text \<open>
  The response without its timestamp; the summary and the warehouse dimensions repeat the
  metrics and the input.
\<close>

record optimization_result =
  r_algorithm :: string
  r_metrics :: metrics
  r_placed_items :: "unit_item list"
  r_unplaced_items :: "unit_item list"
  r_picking_optimization :: picking_result
  r_workflow_efficiency :: workflow_efficiency
  r_zone_optimization :: zone_optimization
  r_seasonal_predictions :: "string \<rightharpoonup> real"
  r_turnover_predictions :: "string \<rightharpoonup> turnover"

definition reset :: "engine \<Rightarrow> engine" where
  "reset e = e\<lparr>occupancy_grid := (\<lambda>i j k. False), placed_items_tracker := []\<rparr>"

definition run_algorithm ::
  "warehouse \<Rightarrow> engine \<Rightarrow> string \<Rightarrow> unit_item list \<Rightarrow> py_error + engine \<times> unit_item list"
  where
  "run_algorithm w e algorithm processed_items =
     (if algorithm = ''bin_packing'' then Inr (bin_packing_optimization w e processed_items)
      else if algorithm = ''space_filling''
        then Inr (space_filling_optimization w e processed_items)
      else if algorithm = ''hybrid'' then Inr (hybrid_optimization w e processed_items)
      else if algorithm = ''ml_enhanced''
        then Inr (ml_enhanced_optimization w e processed_items)
      else Inl (ValueError (''Unknown algorithm: '' @ algorithm)))"

definition prepare_enhanced_result ::
  "warehouse \<Rightarrow> unit_item list \<Rightarrow> unit_item list \<Rightarrow> string \<Rightarrow> picking_result \<Rightarrow>
   workflow_efficiency \<Rightarrow> zone_optimization \<Rightarrow> (string \<rightharpoonup> real) \<Rightarrow> (string \<rightharpoonup> turnover) \<Rightarrow>
   py_error + optimization_result" where
  "prepare_enhanced_result w placed_items all_items algorithm picking workflow zones
     seasonal_predictions turnover_predictions =
     (case calculate_metrics w placed_items all_items of
        Inl err \<Rightarrow> Inl err
      | Inr m \<Rightarrow>
          Inr \<lparr>r_algorithm = algorithm,
               r_metrics = m,
               r_placed_items = placed_items,
               r_unplaced_items = filter (\<lambda>item. \<not> u_placed item) all_items,
               r_picking_optimization = picking,
               r_workflow_efficiency = workflow,
               r_zone_optimization = zones,
               r_seasonal_predictions = seasonal_predictions,
               r_turnover_predictions = turnover_predictions\<rparr>)"

text \<open>
  \<^verbatim>\<open>WarehouseOptimizer.optimize\<close> with no storage types, on an instance whose grid and
  tracker are \<open>e\<close> when the call starts. The result is the state of the instance after
  the call, and the response or the exception raised.
\<close>

definition optimize ::
  "warehouse \<Rightarrow> engine \<Rightarrow> int \<Rightarrow> item_spec list \<Rightarrow> string \<Rightarrow> bool \<Rightarrow>
   engine \<times> (py_error + optimization_result)" where
  "optimize w e current_month items algorithm use_ml_prediction =
     (let e0 = reset e;
          algorithm' = (if use_ml_prediction \<and> algorithm = ''auto''
                        then predict_optimal_algorithm w items else algorithm);
          seasonal_predictions = predict_seasonal_demand current_month items;
          turnover_predictions = calculate_turnover_predictions items;
          adjusted_items = apply_seasonal_adjustments items seasonal_predictions;
          processed_items = prepare_items_with_ml adjusted_items turnover_predictions
      in case run_algorithm w e0 algorithm' processed_items of
           Inl err \<Rightarrow> (e0, Inl err)
         | Inr (e1, placed) \<Rightarrow>
             (e1,
              case pick_view placed of
                Inl err \<Rightarrow> Inl err
              | Inr view \<Rightarrow>
                  let picking = optimize_picking_path w view None in
                  (case calculate_workflow_efficiency w view of
                     Inl err \<Rightarrow> Inl err
                   | Inr workflow \<Rightarrow>
                       (case optimize_zone_layout w view of
                          Inl err \<Rightarrow> Inl err
                        | Inr zones \<Rightarrow>
                            prepare_enhanced_result w placed
                              (write_back processed_items placed) algorithm' picking
                              workflow zones seasonal_predictions turnover_predictions))))"

section \<open>Clearance between placed units\<close>

text \<open>
  Two tracker entries are clear of each other when they carry the same type tag or their
  boxes are at least the clearance threshold apart.
\<close>

definition clearance_between :: "tracked \<Rightarrow> tracked \<Rightarrow> bool" where
  "clearance_between a b =
     (t_type a = t_type b \<or> type_distance_constraint \<le> box_distance (t_bounds a) (t_bounds b))"

text \<open>Every pair of entries is clear.\<close>

definition clearance_invariant :: "tracked list \<Rightarrow> bool" where
  "clearance_invariant trk = list_all (\<lambda>a. list_all (\<lambda>b. clearance_between a b) trk) trk"

text \<open>
  Every entry with a non-empty type tag is clear of the entries recorded before it. The
  list is given newest first.
\<close>

fun clear_of_earlier :: "tracked list \<Rightarrow> bool" where
  "clear_of_earlier [] = True"
| "clear_of_earlier (t # earlier) =
     ((t_type t = [] \<or> list_all (\<lambda>p. clearance_between t p) earlier) \<and>
      clear_of_earlier earlier)"

definition typed_clearance_invariant :: "tracked list \<Rightarrow> bool" where
  "typed_clearance_invariant trk = clear_of_earlier (rev trk)"

text \<open>The box a unit occupies once it has a position.\<close>

definition unit_box :: "unit_item \<Rightarrow> box option" where
  "unit_box u =
     (case u_position u of
        None \<Rightarrow> None
      | Some (x, y, z) \<Rightarrow> Some (x, y, z, x + u_length u, y + u_width u, z + u_height u))"

section \<open>Example inputs\<close>

definition scenario_warehouse :: warehouse where
  "scenario_warehouse = \<lparr>warehouse_length = 10, warehouse_width = 5, warehouse_height = 3\<rparr>"

definition fresh_engine :: engine where
  "fresh_engine = \<lparr>occupancy_grid = (\<lambda>i j k. False), placed_items_tracker = []\<rparr>"

definition item_of :: "string \<Rightarrow> real \<Rightarrow> real \<Rightarrow> real \<Rightarrow> real \<Rightarrow> item_spec" where
  "item_of name len wid hei quantity =
     \<lparr>i_name = name, i_length = len, i_width = wid, i_height = hei, i_quantity = quantity,
      i_weight = None\<rparr>"



definition tall_pallet :: unit_item where
  "tall_pallet = processed_item Map.empty (item_of ''pallet'' 1 1 3 1) 1 0"

definition tall_box :: unit_item where
  "tall_box = processed_item Map.empty (item_of ''box'' 1 1 3 1) 1 0"

section \<open>Verified properties\<close>

subsection \<open>Unit preparation\<close>


lemma py_int_of_int: "py_int (of_int n) = n"
  by (simp add: py_int_def)

lemma processed_item_fields:
  "u_name (processed_item tp item f i) = i_name item"
  "u_length (processed_item tp item f i) = i_length item"
  "u_width (processed_item tp item f i) = i_width item"
  "u_height (processed_item tp item f i) = i_height item"
  "u_volume (processed_item tp item f i) = i_length item * i_width item * i_height item"
  "u_position (processed_item tp item f i) = None"
  "u_placed (processed_item tp item f i) = False"
  "u_rotation (processed_item tp item f i) = 0"
  "u_turnover (processed_item tp item f i) = tp (i_name item)"
  by (simp_all add: processed_item_def)

lemma length_units_of:
  "length (units_of tp (item, f)) = nat (py_int (i_quantity item))"
  by (simp add: units_of_def)


lemma names_prepare:
  "map u_name (prepare_items_with_ml adj tp) = map u_name (concat (map (units_of tp) adj))"
proof -
  let ?xs = "concat (map (units_of tp) adj)"
  have "map u_name (prepare_items_with_ml adj tp) = map (u_name \<circ> snd) (enumerate 0 ?xs)"
    by (simp add: prepare_items_with_ml_def case_prod_beta comp_def)
  also have "\<dots> = map u_name (map snd (enumerate 0 ?xs))"
    by (simp only: map_map)
  also have "\<dots> = map u_name ?xs"
    by (simp only: map_snd_enumerate)
  finally show ?thesis .
qed

lemma adjusted_in_set:
  assumes "item \<in> set items"
  shows "(item\<lparr>i_quantity := of_int (adjusted_quantity (i_quantity item)
            (case sp (i_name item) of Some f \<Rightarrow> f | None \<Rightarrow> 1.0))\<rparr>,
          (case sp (i_name item) of Some f \<Rightarrow> f | None \<Rightarrow> 1.0))
         \<in> set (apply_seasonal_adjustments items sp)"
  using assms unfolding apply_seasonal_adjustments_def Let_def set_map by (rule imageI)

lemma unit_name_in_prepare:
  assumes "adj \<in> set adjs" and "u \<in> set (units_of tp adj)"
  shows "\<exists>v \<in> set (prepare_items_with_ml adjs tp). u_name v = u_name u"
proof -
  from assms have "u \<in> set (concat (map (units_of tp) adjs))"
    by (simp only: set_concat set_map) (rule UN_I [where a = "units_of tp adj"], rule imageI)
  then have "u_name u \<in> u_name ` set (concat (map (units_of tp) adjs))"
    by (rule imageI)
  then have "u_name u \<in> set (map u_name (prepare_items_with_ml adjs tp))"
    by (simp only: names_prepare set_map)
  then show ?thesis
    by (simp only: set_map image_iff) (erule bexE, rule bexI, erule sym)
qed




text \<open>
  Claim C8. A strategy selector that is none of the four strategy names nor \<open>auto\<close> makes
  \<^verbatim>\<open>optimize\<close> raise \<^verbatim>\<open>ValueError\<close> with the message naming the selector. No placement
  has run: the instance is left with its grid and tracker reset, and the call returns the
  exception, a value the caller can handle.
\<close>

theorem unknown_strategy_rejected:
  assumes "algorithm \<notin> {''bin_packing'', ''space_filling'', ''hybrid'', ''ml_enhanced'', ''auto''}"
  shows "optimize w e current_month items algorithm use_ml_prediction =
           (reset e, Inl (ValueError (''Unknown algorithm: '' @ algorithm)))"
  using assms by (simp add: optimize_def run_algorithm_def Let_def)

theorem unknown_strategy_rejected_witness:
  "''genetic'' \<notin> {''bin_packing'', ''space_filling'', ''hybrid'', ''ml_enhanced'', ''auto''} \<and>
   optimize \<lparr>warehouse_length = 10, warehouse_width = 5, warehouse_height = 3\<rparr>
     \<lparr>occupancy_grid = (\<lambda>i j k. False), placed_items_tracker = []\<rparr> 1
     [\<lparr>i_name = ''box'', i_length = 2, i_width = 2, i_height = 2, i_quantity = 1,
       i_weight = None\<rparr>] ''genetic'' True =
   (\<lparr>occupancy_grid = (\<lambda>i j k. False), placed_items_tracker = []\<rparr>,
    Inl (ValueError ''Unknown algorithm: genetic''))"
proof -
  have h: "''genetic'' \<notin> {''bin_packing'', ''space_filling'', ''hybrid'', ''ml_enhanced'', ''auto''}"
    by simp
  from h unknown_strategy_rejected [OF h] show ?thesis
    by (simp add: reset_def)
qed

subsection \<open>Path efficiency\<close>



lemma py_round_0: "py_round 0 n = 0"
  by (simp add: py_round_def Let_def)








subsection \<open>Workflow analysis\<close>

lemma peak_zones_length: "length (ta_peak_zones (estimate_traffic_patterns w placed_items)) = 3"
  by (simp add: estimate_traffic_patterns_def Let_def sorted_desc_def define_warehouse_zones_def)

lemma traffic_score_constant: "traffic_score (estimate_traffic_patterns w placed_items) = 40"
  by (simp add: traffic_score_def peak_zones_length)

text \<open>
  Claim C4 at the placed set of one unit at the origin of a 10 x 5 x 3 warehouse. The
  per-zone traffic values are 1, 0, 0 and 0, every zone is classified \<open>low\<close>, so no zone
  exceeds a congestion threshold and the claimed score is 100. The code takes the length
  of the list of peak zones, which always holds three of the four zones, and scores 40,
  as it does for every placed set (\<open>traffic_score_constant\<close>).
\<close>

theorem traffic_score_ignores_congestion:
  "map (\<lambda>zt. (zt_zone zt, zt_traffic_score zt, zt_congestion_risk zt))
     (ta_zone_traffic (estimate_traffic_patterns
        \<lparr>warehouse_length = 10, warehouse_width = 5, warehouse_height = 3\<rparr>
        [\<lparr>p_name = ''box'', p_position = (0, 0, 0)\<rparr>])) =
     [(''high_velocity'', 1, ''low''), (''medium_velocity'', 0, ''low''),
      (''low_velocity'', 0, ''low''), (''bulk_storage'', 0, ''low'')] \<and>
   traffic_score (estimate_traffic_patterns
        \<lparr>warehouse_length = 10, warehouse_width = 5, warehouse_height = 3\<rparr>
        [\<lparr>p_name = ''box'', p_position = (0, 0, 0)\<rparr>]) = 40"
  by (simp add: traffic_score_constant)
     (simp add: estimate_traffic_patterns_def Let_def define_warehouse_zones_def
        get_items_in_zone_def in_bounds_def py_round_def)

lemma picking_density_raises:
  assumes "warehouse_length w = 0 \<or> warehouse_width w = 0"
  shows "calculate_picking_density w v = Inl ZeroDivisionError"
  using assms by (auto simp: calculate_picking_density_def py_div_def Let_def)

lemma workflow_raises:
  assumes "warehouse_length w = 0 \<or> warehouse_width w = 0"
  shows "calculate_workflow_efficiency w v = Inl ZeroDivisionError"
  by (simp add: calculate_workflow_efficiency_def Let_def picking_density_raises [OF assms])

lemma metrics_raises:
  assumes "warehouse_volume w = 0" and "total_items \<noteq> []"
  shows "calculate_metrics w placed_items total_items = Inl ZeroDivisionError"
  using assms by (simp add: calculate_metrics_def py_div_def Let_def)

lemma picking_density_returns:
  assumes "warehouse_length w \<noteq> 0" and "warehouse_width w \<noteq> 0"
  shows "\<exists>pd. calculate_picking_density w v = Inr pd"
  using assms
  by (simp add: calculate_picking_density_def py_div_def Let_def define_warehouse_zones_def
      calculate_zone_area_def)

lemma bottlenecks_returns:
  assumes "warehouse_length w \<noteq> 0" and "warehouse_width w \<noteq> 0"
  shows "\<exists>b. identify_bottlenecks w v = Inr b"
  using assms
  by (simp add: identify_bottlenecks_def py_div_def Let_def define_warehouse_zones_def
      calculate_zone_area_def)

lemma workflow_returns:
  assumes "warehouse_length w \<noteq> 0" and "warehouse_width w \<noteq> 0"
  shows "\<exists>wf. calculate_workflow_efficiency w v = Inr wf"
proof -
  from picking_density_returns [OF assms] obtain pd
    where "calculate_picking_density w v = Inr pd" ..
  moreover from bottlenecks_returns [OF assms] obtain b
    where "identify_bottlenecks w v = Inr b" ..
  ultimately show ?thesis
    by (simp add: calculate_workflow_efficiency_def Let_def)
qed

lemma zone_layout_returns:
  assumes "warehouse_length w \<noteq> 0" and "warehouse_width w \<noteq> 0"
  shows "\<exists>z. optimize_zone_layout w v = Inr z"
  using assms
  by (simp add: optimize_zone_layout_def py_div_def Let_def define_warehouse_zones_def
      calculate_zone_area_def)

subsection \<open>Placement into an empty warehouse\<close>

lemma any_occupied_empty_grid:
  assumes "\<And>i j k. \<not> occupancy_grid e i j k"
  shows "\<not> any_occupied w e x_start x_end y_start y_end z_start z_end"
  using assms by (simp add: any_occupied_def list_ex_iff)

lemma can_place_on_empty:
  assumes "placed_items_tracker e = []" and "\<And>i j k. \<not> occupancy_grid e i j k"
  shows "can_place_item_at_position w e len wid hei x y z ty"
  using assms(1) any_occupied_empty_grid [of e, OF assms(2)]
  by (simp add: can_place_item_at_position_def Let_def)

lemma arange_0_Cons:
  assumes "0 < stop"
  shows "\<exists>rest. arange 0 stop grid_resolution = 0 # rest"
proof -
  from assms have "0 < stop / grid_resolution"
    by (simp add: grid_resolution_def)
  then have "0 < \<lceil>(stop - 0) / grid_resolution\<rceil>"
    by simp
  then have "0 < nat \<lceil>(stop - 0) / grid_resolution\<rceil>"
    by simp
  then have "[0..<nat \<lceil>(stop - 0) / grid_resolution\<rceil>] =
      0 # [Suc 0..<nat \<lceil>(stop - 0) / grid_resolution\<rceil>]"
    by (rule upt_conv_Cons)
  then show ?thesis
    unfolding arange_def by simp
qed

lemma set_rotation_same:
  "set_rotation item (u_length item, u_width item, u_height item) = item"
  by (simp add: set_rotation_def)

lemma find_best_position_on_empty:
  assumes e: "placed_items_tracker e = []" "\<And>i j k. \<not> occupancy_grid e i j k"
    and fit: "u_length item \<le> warehouse_length w" "u_width item \<le> warehouse_width w"
      "u_height item \<le> warehouse_height w"
  shows "find_best_position w e item = Some ((0, 0, 0), item)"
proof -
  from fit(1) obtain xs where
    xs: "arange 0 (warehouse_length w - u_length item + 0.1) grid_resolution = 0 # xs"
    using arange_0_Cons [of "warehouse_length w - u_length item + 0.1"] by auto
  from fit(2) obtain ys where
    ys: "arange 0 (warehouse_width w - u_width item + 0.1) grid_resolution = 0 # ys"
    using arange_0_Cons [of "warehouse_width w - u_width item + 0.1"] by auto
  from fit(3) obtain zs where
    zs: "arange 0 (warehouse_height w - u_height item + 0.1) grid_resolution = 0 # zs"
    using arange_0_Cons [of "warehouse_height w - u_height item + 0.1"] by auto
  have "scan_origins w e (get_object_type (u_name item)) (u_length item) (u_width item)
      (u_height item) (0 # xs) (0 # ys) (0 # zs) = Some (0, 0, 0)"
    by (simp add: scan_origins_def can_place_on_empty [OF e])
  with fit show ?thesis
    by (simp add: find_best_position_def rotations_def exceeds_warehouse_def xs ys zs
        set_rotation_same del: set_rotation_def)
qed

lemma reset_empty:
  "placed_items_tracker (reset e) = []" "\<not> occupancy_grid (reset e) i j k"
  by (simp_all add: reset_def)

lemma seasonal_factor_range: "0 \<le> seasonal_factor_of m n \<and> seasonal_factor_of m n < 2"
  by (simp add: seasonal_factor_of_def get_winter_factor_def get_summer_factor_def)

lemma adjusted_quantity_one: "adjusted_quantity 1 (seasonal_factor_of m n) = 1"
proof -
  from seasonal_factor_range [of m n] have "\<lfloor>seasonal_factor_of m n\<rfloor> < 2"
    by (simp add: floor_less_iff)
  with seasonal_factor_range [of m n] show ?thesis
    by (simp add: adjusted_quantity_def py_int_def)
qed


lemma map_raising_single: "map_raising f [x] = (case f x of Inl err \<Rightarrow> Inl err | Inr y \<Rightarrow> Inr [y])"
  by (simp split: sum.splits)

text \<open>
  Claim C5 (scenario A). In a 10 x 5 x 3 warehouse, one item of dimensions 2 x 2 x 2 and
  quantity 1 under bin packing: the call returns a response, the single unit is placed
  at \<open>(0, 0, 0)\<close> in its original orientation, nothing is left unplaced, and the reported
  utilization is \<open>8 / 150 * 100\<close> rounded to two decimals, 5.33. This holds for every
  item name and weight, every month, and whatever the instance held before the call.
\<close>

theorem scenario_a_single_item:
  "\<exists>e' r.
     optimize \<lparr>warehouse_length = 10, warehouse_width = 5, warehouse_height = 3\<rparr> e
       current_month
       [\<lparr>i_name = name, i_length = 2, i_width = 2, i_height = 2, i_quantity = 1,
         i_weight = weight\<rparr>]
       ''bin_packing'' use_ml_prediction = (e', Inr r) \<and>
     map (\<lambda>u. (u_name u, u_position u, u_length u, u_width u, u_height u, u_rotation u))
       (r_placed_items r) = [(name, Some (0, 0, 0), 2, 2, 2, 0)] \<and>
     r_unplaced_items r = [] \<and>
     m_utilization (r_metrics r) = 5.33 \<and>
     m_utilization (r_metrics r) = py_round (8 / 150 * 100) 2"
proof -
  define w where "w = \<lparr>warehouse_length = 10, warehouse_width = 5, warehouse_height = 3\<rparr>"
  define item where "item = \<lparr>i_name = name, i_length = 2, i_width = 2, i_height = 2,
      i_quantity = 1, i_weight = weight\<rparr>"
  define tp where "tp = calculate_turnover_predictions [item]"
  define f where "f = seasonal_factor_of current_month name"
  define U where "U = \<lparr>u_ref = 0, u_id = name @ ''_1'', u_name = name, u_length = 2,
      u_width = 2, u_height = 2, u_volume = 8,
      u_weight = (case weight of Some x \<Rightarrow> x | None \<Rightarrow> 0), u_placed = False,
      u_position = None, u_rotation = 0, u_seasonal_factor = f, u_turnover = tp name\<rparr>"
  define P where "P = U\<lparr>u_position := Some (0, 0, 0), u_placed := True\<rparr>"
  define e1 where "e1 = mark_space_occupied w (reset e) P (0, 0, 0)"
  have adj: "apply_seasonal_adjustments [item] (predict_seasonal_demand current_month [item])
      = [(item, f)]"
    by (simp add: apply_seasonal_adjustments_def predict_seasonal_demand_def item_def f_def
        adjusted_quantity_one)
  have proc: "prepare_items_with_ml [(item, f)] tp = [U]"
    by (simp add: prepare_items_with_ml_def units_of_def processed_item_def item_def U_def
        py_int_def)
  have fb: "find_best_position w (reset e) U = Some ((0, 0, 0), U)"
    by (rule find_best_position_on_empty) (simp_all add: reset_empty U_def w_def)
  have bp: "bin_packing_optimization w (reset e) [U] = (e1, [P])"
    by (simp add: bin_packing_optimization_def sorted_desc_def fb place_at_def e1_def P_def Let_def)
  have pv: "pick_view [P] = Inr [\<lparr>p_name = name, p_position = (0, 0, 0)\<rparr>]"
    by (simp add: pick_view_def P_def U_def)
  obtain wf where wf: "calculate_workflow_efficiency w
      [\<lparr>p_name = name, p_position = (0, 0, 0)\<rparr>] = Inr wf"
    using workflow_returns [of w] by (auto simp: w_def)
  obtain zo where zo: "optimize_zone_layout w
      [\<lparr>p_name = name, p_position = (0, 0, 0)\<rparr>] = Inr zo"
    using zone_layout_returns [of w] by (auto simp: w_def)
  have wb: "write_back [U] [P] = [P]"
    by (simp add: write_back_def P_def U_def)
  have vol: "warehouse_volume w = 150"
    by (simp add: warehouse_volume_def w_def)
  have met: "\<exists>m. calculate_metrics w [P] [P] = Inr m \<and> m_utilization m = py_round (8 / 150 * 100) 2"
    by (simp add: calculate_metrics_def py_div_def vol Let_def P_def U_def)
  then obtain m where m: "calculate_metrics w [P] [P] = Inr m"
    and mu: "m_utilization m = py_round (8 / 150 * 100) 2"
    by blast
  have opt: "optimize w e current_month [item] ''bin_packing'' use_ml_prediction =
      (e1, prepare_enhanced_result w [P] [P] ''bin_packing''
         (optimize_picking_path w [\<lparr>p_name = name, p_position = (0, 0, 0)\<rparr>] None) wf zo
         (predict_seasonal_demand current_month [item]) tp)"
    by (simp add: optimize_def Let_def run_algorithm_def adj proc bp pv wf zo wb
        flip: tp_def)
  have res: "prepare_enhanced_result w [P] [P] ''bin_packing'' pk wf zo sp tp =
      Inr \<lparr>r_algorithm = ''bin_packing'', r_metrics = m, r_placed_items = [P],
        r_unplaced_items = filter (\<lambda>item. \<not> u_placed item) [P],
        r_picking_optimization = pk, r_workflow_efficiency = wf, r_zone_optimization = zo,
        r_seasonal_predictions = sp, r_turnover_predictions = tp\<rparr>" for pk sp
    by (simp add: prepare_enhanced_result_def m)
  show ?thesis
    unfolding opt [unfolded w_def item_def] res [unfolded w_def]
    by (simp add: mu py_round_def Let_def) (simp add: P_def U_def)
qed

subsection \<open>Degenerate warehouses\<close>

lemma prepared_nonempty:
  assumes "items \<noteq> []"
  shows "prepare_items_with_ml (apply_seasonal_adjustments items sp) tp \<noteq> []"
proof -
  from assms obtain item where mem: "item \<in> set items"
    by (meson last_in_set)
  define g where "g = (case sp (i_name item) of Some f \<Rightarrow> f | None \<Rightarrow> 1.0)"
  define adj where
    "adj = (item\<lparr>i_quantity := of_int (adjusted_quantity (i_quantity item) g)\<rparr>, g)"
  from mem have adj_mem: "adj \<in> set (apply_seasonal_adjustments items sp)"
    unfolding adj_def g_def by (rule adjusted_in_set)
  have "1 \<le> adjusted_quantity (i_quantity item) g"
    by (simp add: adjusted_quantity_def)
  then have "0 < length (units_of tp adj)"
    unfolding adj_def by (simp add: length_units_of py_int_of_int)
  then have "units_of tp adj \<noteq> []"
    by simp
  then obtain u where "u \<in> set (units_of tp adj)"
    by (meson last_in_set)
  from unit_name_in_prepare [OF adj_mem this]
  obtain v where "v \<in> set (prepare_items_with_ml (apply_seasonal_adjustments items sp) tp)"
    by (rule bexE)
  then show ?thesis
    by (cases "prepare_items_with_ml (apply_seasonal_adjustments items sp) tp") simp_all
qed

lemma degenerate_warehouse_never_returns:
  assumes "warehouse_length w = 0 \<or> warehouse_width w = 0 \<or> warehouse_height w = 0"
    and "items \<noteq> []"
  shows "\<exists>err. snd (optimize w e current_month items algorithm use_ml_prediction) = Inl err"
proof (cases "warehouse_length w = 0 \<or> warehouse_width w = 0")
  case True
  then show ?thesis
    by (simp add: optimize_def Let_def workflow_raises split: sum.splits prod.splits)
next
  case False
  with assms(1) have "warehouse_volume w = 0"
    by (simp add: warehouse_volume_def)
  moreover from assms(2)
  have "write_back (prepare_items_with_ml (apply_seasonal_adjustments items
          (predict_seasonal_demand current_month items))
          (calculate_turnover_predictions items)) placed \<noteq> []" for placed
    by (simp add: write_back_def prepared_nonempty)
  ultimately show ?thesis
    by (simp add: optimize_def Let_def prepare_enhanced_result_def metrics_raises
        split: sum.splits prod.splits)
qed

text \<open>
  Claim C3 at a warehouse of length 0 (0 x 5 x 3) with one item 2 x 2 x 2 under bin
  packing: no unit is placed, and the workflow analysis then divides the number of placed
  units by the floor area 0, so the call raises \<^verbatim>\<open>ZeroDivisionError\<close> instead of
  returning a response that lists the unit as unplaced. By
  \<open>degenerate_warehouse_never_returns\<close> no call on a warehouse with a zero dimension and
  a non-empty item list returns a response.
\<close>

theorem zero_length_warehouse_raises:
  "optimize \<lparr>warehouse_length = 0, warehouse_width = 5, warehouse_height = 3\<rparr> e
     current_month
     [\<lparr>i_name = name, i_length = 2, i_width = 2, i_height = 2, i_quantity = 1,
       i_weight = weight\<rparr>]
     ''bin_packing'' use_ml_prediction = (reset e, Inl ZeroDivisionError)"
proof -
  define w where "w = \<lparr>warehouse_length = 0, warehouse_width = 5, warehouse_height = 3\<rparr>"
  define item where "item = \<lparr>i_name = name, i_length = 2, i_width = 2, i_height = 2,
      i_quantity = 1, i_weight = weight\<rparr>"
  define tp where "tp = calculate_turnover_predictions [item]"
  define f where "f = seasonal_factor_of current_month name"
  define U where "U = \<lparr>u_ref = 0, u_id = name @ ''_1'', u_name = name, u_length = 2,
      u_width = 2, u_height = 2, u_volume = 8,
      u_weight = (case weight of Some x \<Rightarrow> x | None \<Rightarrow> 0), u_placed = False,
      u_position = None, u_rotation = 0, u_seasonal_factor = f, u_turnover = tp name\<rparr>"
  have adj: "apply_seasonal_adjustments [item] (predict_seasonal_demand current_month [item])
      = [(item, f)]"
    by (simp add: apply_seasonal_adjustments_def predict_seasonal_demand_def item_def f_def
        adjusted_quantity_one)
  have proc: "prepare_items_with_ml [(item, f)] tp = [U]"
    by (simp add: prepare_items_with_ml_def units_of_def processed_item_def item_def U_def
        py_int_def)
  have fb: "find_best_position w (reset e) U = None"
    by (simp add: find_best_position_def rotations_def exceeds_warehouse_def U_def w_def)
  have bp: "bin_packing_optimization w (reset e) [U] = (reset e, [])"
    by (simp add: bin_packing_optimization_def sorted_desc_def fb)
  have wf: "calculate_workflow_efficiency w [] = Inl ZeroDivisionError"
    by (rule workflow_raises) (simp add: w_def)
  have "optimize w e current_month [item] ''bin_packing'' use_ml_prediction =
      (reset e, Inl ZeroDivisionError)"
    by (simp add: optimize_def Let_def run_algorithm_def adj proc bp pick_view_def wf
        flip: tp_def)
  then show ?thesis
    unfolding w_def item_def .
qed


subsection \<open>Evaluating a scan\<close>

text \<open>
  Facts that let the simplifier run the nested scan on concrete inputs: the loops are
  unfolded one iteration at a time, and the grid after some placements is queried through
  the boxes that were marked.
\<close>

lemma first_some_weak_cong: "xs = ys \<Longrightarrow> first_some f xs = first_some f ys"
  by simp

lemma set_np_slice: "set (np_slice n a b) = {slice_bound n a..<slice_bound n b}"
  by (auto simp: np_slice_def)

lemma interval_meet:
  "(\<exists>i\<in>{a..<b}. i \<in> {c..<d}) \<longleftrightarrow> max a c < min b (d::int)"
proof
  assume "\<exists>i\<in>{a..<b}. i \<in> {c..<d}"
  then show "max a c < min b d"
    by auto
next
  assume "max a c < min b d"
  then have "max a c \<in> {a..<b}" and "max a c \<in> {c..<d}"
    by auto
  then show "\<exists>i\<in>{a..<b}. i \<in> {c..<d}"
    by blast
qed

lemma any_occupied_reset: "\<not> any_occupied w (reset e) a b c d f g"
  by (rule any_occupied_empty_grid) (simp add: reset_def)

lemma tracker_mark:
  "placed_items_tracker (mark_space_occupied w e item (x, y, z)) =
     placed_items_tracker e @
       [\<lparr>t_type = get_object_type (u_name item), t_position = (x, y, z),
         t_bounds = (x, y, z, x + u_length item, y + u_width item, z + u_height item)\<rparr>]"
  by (simp add: mark_space_occupied_def Let_def)

lemma any_occupied_mark:
  "any_occupied w (mark_space_occupied w e item (x, y, z)) a b c d f g \<longleftrightarrow>
     (max (slice_bound (grid_length w) (py_int (x / grid_resolution)))
          (slice_bound (grid_length w) a)
        < min (slice_bound (grid_length w)
                 (min (py_int ((x + u_length item) / grid_resolution)) (grid_length w)))
              (slice_bound (grid_length w) b) \<and>
      max (slice_bound (grid_width w) (py_int (y / grid_resolution)))
          (slice_bound (grid_width w) c)
        < min (slice_bound (grid_width w)
                 (min (py_int ((y + u_width item) / grid_resolution)) (grid_width w)))
              (slice_bound (grid_width w) d) \<and>
      max (slice_bound (grid_height w) (py_int (z / grid_resolution)))
          (slice_bound (grid_height w) f)
        < min (slice_bound (grid_height w)
                 (min (py_int ((z + u_height item) / grid_resolution)) (grid_height w)))
              (slice_bound (grid_height w) g)) \<or>
     any_occupied w e a b c d f g"
  unfolding any_occupied_def mark_space_occupied_def Let_def prod.case list_ex_iff
    set_np_slice engine.simps
  by (simp only: flip: interval_meet) blast


lemmas type_eval =
  get_object_type_def lower_def lower_char_def any_keyword_def split_first_def

lemmas grid_eval =
  grid_length_def grid_width_def grid_height_def grid_resolution_def py_int_def
  slice_bound_def

lemma arange_rec:
  assumes "0 < step"
  shows "arange start stop step =
           (if start < stop then start # arange (start + step) stop step else [])"
proof (cases "start < stop")
  case True
  define n where "n = nat \<lceil>(stop - (start + step)) / step\<rceil>"
  from assms have "(stop - start) / step = (stop - (start + step)) / step + 1"
    by (simp add: field_simps)
  then have c: "\<lceil>(stop - start) / step\<rceil> = \<lceil>(stop - (start + step)) / step\<rceil> + 1"
    by simp
  from True assms have "0 < (stop - start) / step"
    by simp
  then have "0 < \<lceil>(stop - start) / step\<rceil>"
    by simp
  with c have "0 \<le> \<lceil>(stop - (start + step)) / step\<rceil>"
    by linarith
  then have "nat (\<lceil>(stop - (start + step)) / step\<rceil> + 1) = Suc n"
    unfolding n_def by (simp add: Suc_nat_eq_nat_zadd1)
  with c have "nat \<lceil>(stop - start) / step\<rceil> = Suc n"
    by (simp only:)
  then have "arange start stop step = map (\<lambda>k. start + real k * step) [0..<Suc n]"
    by (simp add: arange_def)
  also have "[0..<Suc n] = 0 # map Suc [0..<n]"
    by (simp add: upt_conv_Cons map_Suc_upt del: upt_Suc)
  also have "map (\<lambda>k. start + real k * step) (0 # map Suc [0..<n]) =
      start # map (\<lambda>k. (start + step) + real k * step) [0..<n]"
    by (simp add: algebra_simps)
  also have "map (\<lambda>k. (start + step) + real k * step) [0..<n] = arange (start + step) stop step"
    by (simp add: arange_def n_def)
  finally show ?thesis
    using True by simp
next
  case False
  with assms have "(stop - start) / step \<le> 0"
    by (simp add: divide_le_0_iff)
  then have "\<lceil>(stop - start) / step\<rceil> \<le> 0"
    by (simp add: ceiling_le_zero)
  with False show ?thesis
    by (simp add: arange_def)
qed

lemmas scan_eval =
  find_best_position_def rotations_def exceeds_warehouse_def scan_origins_def arange_rec
  can_place_item_at_position_def Let_def any_occupied_mark any_occupied_reset tracker_mark
  reset_empty type_distance_constraint_def axis_gap_def set_rotation_def


lemmas unit_eval = processed_item_fields item_of_def

lemma bin_packing_step:
  "bin_packing_loop w (item # rest) (e, placed) =
     (case find_best_position w e item of
        Some (pos, item') \<Rightarrow>
          bin_packing_loop w rest
            (mark_space_occupied w e (item'\<lparr>u_position := Some pos, u_placed := True\<rparr>) pos,
             placed @ [item'\<lparr>u_position := Some pos, u_placed := True\<rparr>])
      | None \<Rightarrow> bin_packing_loop w rest (e, placed))"
  by (simp add: place_at_def Let_def split: option.splits prod.splits)


subsection \<open>A call that returns\<close>

lemma pick_view_total:
  assumes "None \<notin> set (map u_position placed)"
  shows "\<exists>v. pick_view placed = Inr v"
  using assms
proof (induction placed)
  case Nil
  show ?case
    by (simp add: pick_view_def)
next
  case (Cons u placed)
  then obtain v where "pick_view placed = Inr v"
    by auto
  moreover from Cons.prems obtain pos where "u_position u = Some pos"
    by (cases "u_position u") simp_all
  ultimately show ?case
    by (simp add: pick_view_def)
qed

lemma scenario_dims:
  "warehouse_length scenario_warehouse \<noteq> 0" "warehouse_width scenario_warehouse \<noteq> 0"
  "warehouse_height scenario_warehouse \<noteq> 0"
  by (simp_all add: scenario_warehouse_def)

lemma optimize_returns:
  assumes dims: "warehouse_length w \<noteq> 0" "warehouse_width w \<noteq> 0" "warehouse_height w \<noteq> 0"
    and alg: "algorithm \<noteq> ''auto''"
    and run: "run_algorithm w (reset e) algorithm
        (prepare_items_with_ml
           (apply_seasonal_adjustments items (predict_seasonal_demand current_month items))
           (calculate_turnover_predictions items)) = Inr ep"
    and view: "pick_view (snd ep) = Inr v"
  shows "\<exists>r. optimize w e current_month items algorithm use_ml_prediction = (fst ep, Inr r) \<and>
           r_placed_items r = snd ep"
proof -
  define processed where "processed = prepare_items_with_ml
           (apply_seasonal_adjustments items (predict_seasonal_demand current_month items))
           (calculate_turnover_predictions items)"
  obtain e1 placed where ep: "ep = (e1, placed)"
    by (cases ep)
  obtain wf where wf: "calculate_workflow_efficiency w v = Inr wf"
    using workflow_returns [OF dims(1,2)] by blast
  obtain zo where zo: "optimize_zone_layout w v = Inr zo"
    using zone_layout_returns [OF dims(1,2)] by blast
  from dims have vol: "warehouse_volume w \<noteq> 0"
    by (simp add: warehouse_volume_def)
  have "\<exists>m. calculate_metrics w placed (write_back processed placed) = Inr m"
    using vol by (simp add: calculate_metrics_def py_div_def Let_def)
  then obtain m where m: "calculate_metrics w placed (write_back processed placed) = Inr m"
    by blast
  have "optimize w e current_month items algorithm use_ml_prediction =
      (e1, prepare_enhanced_result w placed (write_back processed placed) algorithm
         (optimize_picking_path w v None) wf zo
         (predict_seasonal_demand current_month items) (calculate_turnover_predictions items))"
    using alg run [folded processed_def] view
    by (simp add: optimize_def Let_def ep wf zo flip: processed_def)
  then show ?thesis
    by (simp add: prepare_enhanced_result_def m ep)
qed

lemma placed_positions_of_run:
  assumes dims: "warehouse_length w \<noteq> 0" "warehouse_width w \<noteq> 0" "warehouse_height w \<noteq> 0"
    and alg: "algorithm \<noteq> ''auto''"
    and run: "run_algorithm w (reset e) algorithm
        (prepare_items_with_ml
           (apply_seasonal_adjustments items (predict_seasonal_demand current_month items))
           (calculate_turnover_predictions items)) = Inr ep"
    and view: "pick_view (snd ep) = Inr v"
  shows "map_sum id (map u_position \<circ> r_placed_items)
           (snd (optimize w e current_month items algorithm use_ml_prediction)) =
         Inr (map u_position (snd ep))"
proof -
  from optimize_returns [OF assms, of use_ml_prediction] obtain r
    where "optimize w e current_month items algorithm use_ml_prediction = (fst ep, Inr r)"
      and "r_placed_items r = snd ep"
    by blast
  then show ?thesis
    by simp
qed

subsection \<open>Determinism\<close>

lemma reset_any: "reset e = reset e'"
  by (simp add: reset_def)

text \<open>
  Claim C7, as the code has it. A call starts by clearing the grid and the tracker, so its
  result does not depend on what the instance held before: a bin-packing run repeated on
  the instance left by the first run, or made on any other prior state, returns the same
  response and leaves the same state, provided the month the predictor reads is the same
  in both runs.
\<close>

theorem bin_packing_independent_of_prior_state:
  "optimize w (fst (optimize w e current_month items ''bin_packing'' use_ml_prediction))
     current_month items ''bin_packing'' use_ml_prediction =
   optimize w e current_month items ''bin_packing'' use_ml_prediction \<and>
   optimize w e' current_month items ''bin_packing'' use_ml_prediction =
   optimize w e current_month items ''bin_packing'' use_ml_prediction"
proof -
  have "optimize w a current_month items ''bin_packing'' use_ml_prediction =
      optimize w e current_month items ''bin_packing'' use_ml_prediction" for a
    unfolding optimize_def by (simp only: reset_any [of a e])
  then show ?thesis
    by simp
qed



lemma winter_type: "get_object_type ''winter_coat'' = ''winter''"
  by (simp add: type_eval)

lemma winter_january: "seasonal_factor_of 1 ''winter_coat'' = 1.5"
  by (simp add: seasonal_factor_of_def lower_def lower_char_def get_winter_factor_def)

lemma winter_july: "seasonal_factor_of 7 ''winter_coat'' = 0.7"
  by (simp add: seasonal_factor_of_def lower_def lower_char_def get_winter_factor_def)

lemma winter_units_january:
  "prepare_items_with_ml
     (apply_seasonal_adjustments [item_of ''winter_coat'' 1 1 1 2]
        (predict_seasonal_demand 1 [item_of ''winter_coat'' 1 1 1 2])) tp =
   [processed_item tp (item_of ''winter_coat'' 1 1 1 3) 1.5 0\<lparr>u_ref := 0\<rparr>,
    processed_item tp (item_of ''winter_coat'' 1 1 1 3) 1.5 1\<lparr>u_ref := 1\<rparr>,
    processed_item tp (item_of ''winter_coat'' 1 1 1 3) 1.5 2\<lparr>u_ref := 2\<rparr>]"
  by (simp add: apply_seasonal_adjustments_def predict_seasonal_demand_def item_of_def
      winter_january adjusted_quantity_def py_int_def prepare_items_with_ml_def units_of_def
      upt_conv_Cons numeral_2_eq_2)

lemma winter_units_july:
  "prepare_items_with_ml
     (apply_seasonal_adjustments [item_of ''winter_coat'' 1 1 1 2]
        (predict_seasonal_demand 7 [item_of ''winter_coat'' 1 1 1 2])) tp =
   [processed_item tp (item_of ''winter_coat'' 1 1 1 1) 0.7 0\<lparr>u_ref := 0\<rparr>]"
  by (simp add: apply_seasonal_adjustments_def predict_seasonal_demand_def item_of_def
      winter_july adjusted_quantity_def py_int_def prepare_items_with_ml_def units_of_def
      upt_conv_Cons)

lemma winter_run_january:
  "map u_position (snd (bin_packing_optimization scenario_warehouse (reset e)
     [processed_item tp (item_of ''winter_coat'' 1 1 1 3) 1.5 0\<lparr>u_ref := 0\<rparr>,
      processed_item tp (item_of ''winter_coat'' 1 1 1 3) 1.5 1\<lparr>u_ref := 1\<rparr>,
      processed_item tp (item_of ''winter_coat'' 1 1 1 3) 1.5 2\<lparr>u_ref := 2\<rparr>])) =
   [Some (0, 0, 0), Some (0, 0, 1), Some (0, 0, 2)]"
  by (simp add: bin_packing_optimization_def sorted_desc_def bin_packing_step
      scan_eval grid_eval scenario_warehouse_def unit_eval winter_type
      del: bin_packing_loop.simps(2) cong: first_some_weak_cong)

lemma winter_run_july:
  "map u_position (snd (bin_packing_optimization scenario_warehouse (reset e)
     [processed_item tp (item_of ''winter_coat'' 1 1 1 1) 0.7 0\<lparr>u_ref := 0\<rparr>])) =
   [Some (0, 0, 0)]"
  by (simp add: bin_packing_optimization_def sorted_desc_def bin_packing_step
      scan_eval grid_eval scenario_warehouse_def unit_eval winter_type
      del: bin_packing_loop.simps(2) cong: first_some_weak_cong)


text \<open>
  Claim C7 as stated takes the warehouse and the item list as the whole input. The
  seasonal multiplier is read from the clock: two winter coats of side 1 in the 10 x 5 x 3
  warehouse become three units in January, stacked at heights 0, 1 and 2, and one unit in
  July.
\<close>

theorem seasonal_month_counterexample:
  "map_sum id (map u_position \<circ> r_placed_items)
     (snd (optimize scenario_warehouse fresh_engine 1 [item_of ''winter_coat'' 1 1 1 2]
        ''bin_packing'' True)) =
     Inr [Some (0, 0, 0), Some (0, 0, 1), Some (0, 0, 2)] \<and>
   map_sum id (map u_position \<circ> r_placed_items)
     (snd (optimize scenario_warehouse fresh_engine 7 [item_of ''winter_coat'' 1 1 1 2]
        ''bin_packing'' True)) =
     Inr [Some (0, 0, 0)]"
proof -
  let ?items = "[item_of ''winter_coat'' 1 1 1 2]"
  let ?tp = "calculate_turnover_predictions ?items"
  let ?run = "\<lambda>m. bin_packing_optimization scenario_warehouse (reset fresh_engine)
      (prepare_items_with_ml (apply_seasonal_adjustments ?items (predict_seasonal_demand m ?items))
         ?tp)"
  have alg: "''bin_packing'' \<noteq> ''auto''"
    by simp
  have r1: "map u_position (snd (?run 1)) = [Some (0, 0, 0), Some (0, 0, 1), Some (0, 0, 2)]"
    by (simp only: winter_units_january winter_run_january)
  have r7: "map u_position (snd (?run 7)) = [Some (0, 0, 0)]"
    by (simp only: winter_units_july winter_run_july)
  from r1 obtain v1 where v1: "pick_view (snd (?run 1)) = Inr v1"
    using pick_view_total [of "snd (?run 1)"] by auto
  from r7 obtain v7 where v7: "pick_view (snd (?run 7)) = Inr v7"
    using pick_view_total [of "snd (?run 7)"] by auto
  have run: "run_algorithm scenario_warehouse (reset fresh_engine) ''bin_packing''
      (prepare_items_with_ml (apply_seasonal_adjustments ?items (predict_seasonal_demand m ?items))
         ?tp) = Inr (?run m)" for m
    by (simp add: run_algorithm_def)
  from placed_positions_of_run [OF scenario_dims alg run v1, of True]
    placed_positions_of_run [OF scenario_dims alg run v7, of True] r1 r7
  show ?thesis
    by (simp only: simp_thms)
qed

subsection \<open>Zone hints\<close>







subsection \<open>Clearance between types\<close>

lemma first_some_SomeD:
  assumes "first_some f xs = Some r"
  shows "\<exists>x \<in> set xs. f x = Some r"
  using assms
proof (induction xs)
  case Nil
  then show ?case by simp
next
  case (Cons x xs)
  show ?case
  proof (cases "f x")
    case None
    with Cons show ?thesis by simp
  next
    case (Some r')
    with Cons.prems show ?thesis by simp
  qed
qed

lemma check_type_distance_constraint_iff:
  "check_type_distance_constraint trk ty b \<longleftrightarrow>
     list_all (\<lambda>p. ty = t_type p \<or> type_distance_constraint \<le> box_distance b (t_bounds p)) trk"
proof (induction trk)
  case Nil
  show ?case
    by simp
next
  case (Cons a trk)
  then show ?case
    by (cases "ty = t_type a") (simp_all add: not_less)
qed

lemma can_place_clearance:
  assumes "can_place_item_at_position w e len wid hei x y z ty"
  shows "ty = [] \<or>
    list_all (\<lambda>p. ty = t_type p \<or>
       type_distance_constraint \<le>
         box_distance (x, y, z, x + len, y + wid, z + hei) (t_bounds p))
      (placed_items_tracker e)"
proof (cases "ty = [] \<or> placed_items_tracker e = []")
  case True
  then show ?thesis
    by auto
next
  case False
  with assms have "check_type_distance_constraint (placed_items_tracker e) ty
      (x, y, z, x + len, y + wid, z + hei)"
    by (simp add: can_place_item_at_position_def Let_def split: if_splits)
  then show ?thesis
    by (simp add: check_type_distance_constraint_iff)
qed

lemma typed_clearance_snoc:
  "typed_clearance_invariant (trk @ [t]) \<longleftrightarrow>
     (t_type t = [] \<or> list_all (\<lambda>p. clearance_between t p) trk) \<and>
     typed_clearance_invariant trk"
  by (simp add: typed_clearance_invariant_def)

text \<open>
  Read by index, in the order of placement: a unit with a type tag is clear of every unit
  placed before it.
\<close>

lemma typed_clearance_pairs:
  "typed_clearance_invariant trk \<longleftrightarrow>
     (\<forall>j<length trk. \<forall>i<j.
        t_type (trk ! j) = [] \<or> clearance_between (trk ! j) (trk ! i))"
proof (induction trk rule: rev_induct)
  case Nil
  show ?case
    by (simp add: typed_clearance_invariant_def)
next
  case (snoc t trk)
  have "(\<forall>j<length (trk @ [t]). \<forall>i<j.
        t_type ((trk @ [t]) ! j) = [] \<or>
        clearance_between ((trk @ [t]) ! j) ((trk @ [t]) ! i)) \<longleftrightarrow>
      (\<forall>j<length trk. \<forall>i<j.
        t_type (trk ! j) = [] \<or> clearance_between (trk ! j) (trk ! i)) \<and>
      (\<forall>i<length trk. t_type t = [] \<or> clearance_between t (trk ! i))"
    by (auto simp: nth_append less_Suc_eq)
  also have "(\<forall>i<length trk. t_type t = [] \<or> clearance_between t (trk ! i)) \<longleftrightarrow>
      (t_type t = [] \<or> list_all (\<lambda>p. clearance_between t p) trk)"
    by (auto simp: list_all_length)
  finally show ?case
    by (simp add: typed_clearance_snoc snoc.IH) blast
qed

lemma place_at_tracker:
  "placed_items_tracker (fst (place_at w e placed item (x, y, z))) =
     placed_items_tracker e @
       [\<lparr>t_type = get_object_type (u_name item), t_position = (x, y, z),
         t_bounds = (x, y, z, x + u_length item, y + u_width item, z + u_height item)\<rparr>]"
  by (simp add: place_at_def Let_def tracker_mark)

lemma place_at_preserves:
  assumes inv: "typed_clearance_invariant (placed_items_tracker e)"
    and ok: "can_place_item_at_position w e (u_length item) (u_width item) (u_height item)
        x y z (get_object_type (u_name item))"
  shows "typed_clearance_invariant
      (placed_items_tracker (fst (place_at w e placed item (x, y, z))))"
  using inv can_place_clearance [OF ok]
  by (simp add: place_at_tracker typed_clearance_snoc clearance_between_def)

lemma set_rotation_fields:
  assumes "d \<in> set (rotations item)"
  shows "u_length (set_rotation item d) = fst d \<and> u_width (set_rotation item d) = fst (snd d) \<and>
         u_height (set_rotation item d) = snd (snd d) \<and>
         u_name (set_rotation item d) = u_name item"
  using assms by (auto simp: rotations_def set_rotation_def)

lemma scan_origins_feasible:
  assumes "scan_origins w e ty rl rw rh xs ys zs = Some pos"
  shows "can_place_item_at_position w e rl rw rh (fst pos) (fst (snd pos)) (snd (snd pos)) ty"
proof -
  from assms obtain x where "first_some (\<lambda>y. first_some (\<lambda>z.
         if can_place_item_at_position w e rl rw rh x y z ty
         then Some (x, y, z) else None) zs) ys = Some pos"
    unfolding scan_origins_def by (blast dest: first_some_SomeD)
  then obtain y where "first_some (\<lambda>z.
         if can_place_item_at_position w e rl rw rh x y z ty
         then Some (x, y, z) else None) zs = Some pos"
    by (blast dest: first_some_SomeD)
  then obtain z where "(if can_place_item_at_position w e rl rw rh x y z ty
         then Some (x, y, z) else None) = Some pos"
    by (blast dest: first_some_SomeD)
  then show ?thesis
    by (simp split: if_splits) (metis fst_conv snd_conv)
qed


lemma rotation_scan_feasible:
  assumes d: "d \<in> set (rotations item)"
    and r: "map_option (\<lambda>pos. (pos, set_rotation item d))
        (scan_origins w e (get_object_type (u_name item)) (fst d) (fst (snd d)) (snd (snd d))
           xs ys zs) = Some (pos, item')"
  shows "can_place_item_at_position w e (u_length item') (u_width item') (u_height item')
      (fst pos) (fst (snd pos)) (snd (snd pos)) (get_object_type (u_name item'))"
proof -
  from r have s: "scan_origins w e (get_object_type (u_name item)) (fst d) (fst (snd d))
      (snd (snd d)) xs ys zs = Some pos"
    and i: "item' = set_rotation item d"
    by (cases "scan_origins w e (get_object_type (u_name item)) (fst d) (fst (snd d))
      (snd (snd d)) xs ys zs"; simp)+
  from scan_origins_feasible [OF s] set_rotation_fields [OF d] show ?thesis
    by (simp add: i)
qed

lemma find_best_position_feasible:
  assumes "find_best_position w e item = Some (pos, item')"
  shows "can_place_item_at_position w e (u_length item') (u_width item') (u_height item')
      (fst pos) (fst (snd pos)) (snd (snd pos)) (get_object_type (u_name item'))"
proof -
  from assms obtain d where d: "d \<in> set (rotations item)"
    and r: "(case d of (rot_length, rot_width, rot_height) \<Rightarrow>
          if exceeds_warehouse w d then None
          else map_option (\<lambda>pos. (pos, set_rotation item d))
            (scan_origins w e (get_object_type (u_name item)) rot_length rot_width rot_height
               (arange 0 (warehouse_length w - rot_length + 0.1) grid_resolution)
               (arange 0 (warehouse_width w - rot_width + 0.1) grid_resolution)
               (arange 0 (warehouse_height w - rot_height + 0.1) grid_resolution))) =
        Some (pos, item')"
    unfolding find_best_position_def Let_def by (blast dest: first_some_SomeD)
  from r have "map_option (\<lambda>pos. (pos, set_rotation item d))
        (scan_origins w e (get_object_type (u_name item)) (fst d) (fst (snd d)) (snd (snd d))
           (arange 0 (warehouse_length w - fst d + 0.1) grid_resolution)
           (arange 0 (warehouse_width w - fst (snd d) + 0.1) grid_resolution)
           (arange 0 (warehouse_height w - snd (snd d) + 0.1) grid_resolution)) =
        Some (pos, item')"
    by (simp add: case_prod_beta split: if_splits)
  with d show ?thesis
    by (rule rotation_scan_feasible)
qed

lemma zone_scan_feasible:
  assumes "zone_scan w e item zn hz mz = Some (pos, item')"
  shows "can_place_item_at_position w e (u_length item') (u_width item') (u_height item')
      (fst pos) (fst (snd pos)) (snd (snd pos)) (get_object_type (u_name item'))"
proof -
  define b where "b = zone_bounds w zn hz mz"
  from assms obtain d where d: "d \<in> set (rotations item)"
    and r: "(case d of (rot_length, rot_width, rot_height) \<Rightarrow>
          if exceeds_warehouse w d then None
          else
            let x_start = fst (fst b);
                x_end = min (snd (fst b)) (warehouse_length w - rot_length + 0.1);
                y_start = fst (snd b);
                y_end = min (snd (snd b)) (warehouse_width w - rot_width + 0.1)
            in map_option (\<lambda>pos. (pos, set_rotation item d))
                 (scan_origins w e (get_object_type (u_name item)) rot_length rot_width
                    rot_height
                    (arange x_start x_end grid_resolution)
                    (arange y_start y_end grid_resolution)
                    (arange 0 (warehouse_height w - rot_height + 0.1) grid_resolution))) =
        Some (pos, item')"
    unfolding zone_scan_def Let_def b_def by (blast dest: first_some_SomeD)
  from r have "map_option (\<lambda>pos. (pos, set_rotation item d))
        (scan_origins w e (get_object_type (u_name item)) (fst d) (fst (snd d)) (snd (snd d))
           (arange (fst (fst b)) (min (snd (fst b)) (warehouse_length w - fst d + 0.1))
              grid_resolution)
           (arange (fst (snd b)) (min (snd (snd b)) (warehouse_width w - fst (snd d) + 0.1))
              grid_resolution)
           (arange 0 (warehouse_height w - snd (snd d) + 0.1) grid_resolution)) =
        Some (pos, item')"
    by (simp add: case_prod_beta Let_def split: if_splits)
  with d show ?thesis
    by (rule rotation_scan_feasible)
qed

lemma find_position_in_zone_feasible:
  assumes "find_position_in_zone w e item zn hz mz = Some (pos, item')"
  shows "can_place_item_at_position w e (u_length item') (u_width item') (u_height item')
      (fst pos) (fst (snd pos)) (snd (snd pos)) (get_object_type (u_name item'))"
proof (cases "zone_scan w e item zn hz mz")
  case None
  with assms have "find_best_position w e item = Some (pos, item')"
    by (simp add: find_position_in_zone_def)
  then show ?thesis
    by (rule find_best_position_feasible)
next
  case (Some r)
  with assms have "zone_scan w e item zn hz mz = Some (pos, item')"
    by (simp add: find_position_in_zone_def)
  then show ?thesis
    by (rule zone_scan_feasible)
qed

lemma place_found_preserves:
  assumes inv: "typed_clearance_invariant (placed_items_tracker (fst s))"
    and ok: "can_place_item_at_position w (fst s) (u_length item) (u_width item)
        (u_height item) (fst pos) (fst (snd pos)) (snd (snd pos))
        (get_object_type (u_name item))"
  shows "typed_clearance_invariant
      (placed_items_tracker (fst (place_at w (fst s) (snd s) item pos)))"
proof -
  obtain x y z where pos: "pos = (x, y, z)"
    by (cases pos)
  from place_at_preserves [OF inv, of w item x y z "snd s"] ok show ?thesis
    by (simp add: pos)
qed

lemma bin_packing_loop_preserves:
  assumes "typed_clearance_invariant (placed_items_tracker (fst s))"
  shows "typed_clearance_invariant (placed_items_tracker (fst (bin_packing_loop w items s)))"
  using assms
proof (induction items arbitrary: s)
  case Nil
  then show ?case
    by simp
next
  case (Cons item items)
  show ?case
  proof (cases "find_best_position w (fst s) item")
    case None
    with Cons show ?thesis
      by simp
  next
    case (Some r)
    obtain pos item' where r: "r = (pos, item')"
      by (cases r)
    from Some r have "typed_clearance_invariant
        (placed_items_tracker (fst (place_at w (fst s) (snd s) item' pos)))"
      by (intro place_found_preserves Cons.prems find_best_position_feasible) simp
    then have "typed_clearance_invariant (placed_items_tracker
        (fst (bin_packing_loop w items (place_at w (fst s) (snd s) item' pos))))"
      by (rule Cons.IH)
    with Some r show ?thesis
      by simp
  qed
qed

lemma ml_enhanced_loop_preserves:
  assumes "typed_clearance_invariant (placed_items_tracker (fst s))"
  shows "typed_clearance_invariant (placed_items_tracker (fst (ml_enhanced_loop w items s)))"
  using assms
proof (induction items arbitrary: s)
  case Nil
  then show ?case
    by simp
next
  case (Cons item items)
  let ?found = "find_position_in_zone w (fst s) item (hinted_zone item)
      (warehouse_length w * 0.3, warehouse_width w * 0.4)
      (warehouse_length w * 0.6, warehouse_width w * 0.8)"
  have step: "ml_enhanced_loop w (item # items) s =
      (case ?found of
         Some (pos, item') \<Rightarrow> ml_enhanced_loop w items (place_at w (fst s) (snd s) item' pos)
       | None \<Rightarrow> ml_enhanced_loop w items s)"
    by (simp only: ml_enhanced_loop.simps Let_def)
  show ?case
  proof (cases ?found)
    case None
    with Cons show ?thesis
      by (simp only: step option.case)
  next
    case (Some r)
    obtain pos item' where r: "r = (pos, item')"
      by (cases r)
    from Some r have "typed_clearance_invariant
        (placed_items_tracker (fst (place_at w (fst s) (snd s) item' pos)))"
      by (intro place_found_preserves Cons.prems find_position_in_zone_feasible) simp
    then have "typed_clearance_invariant (placed_items_tracker
        (fst (ml_enhanced_loop w items (place_at w (fst s) (snd s) item' pos))))"
      by (rule Cons.IH)
    with Some r show ?thesis
      by (simp only: step option.case prod.case)
  qed
qed

lemma space_filling_loop_preserves:
  assumes "typed_clearance_invariant (placed_items_tracker (fst s))"
  shows "typed_clearance_invariant
      (placed_items_tracker (fst (space_filling_loop w positions items s)))"
  using assms
proof (induction items arbitrary: s)
  case Nil
  then show ?case
    by simp
next
  case (Cons item items)
  show ?case
  proof (cases "find (can_place_item w (fst s) item) positions")
    case None
    with Cons show ?thesis
      by simp
  next
    case (Some pos)
    then have "can_place_item w (fst s) item pos"
      by (auto simp: find_Some_iff)
    then have "can_place_item_at_position w (fst s) (u_length item) (u_width item)
        (u_height item) (fst pos) (fst (snd pos)) (snd (snd pos))
        (get_object_type (u_name item))"
      by (simp add: can_place_item_def case_prod_beta)
    with Cons.prems have "typed_clearance_invariant
        (placed_items_tracker (fst (place_at w (fst s) (snd s) item pos)))"
      by (rule place_found_preserves)
    then have "typed_clearance_invariant (placed_items_tracker
        (fst (space_filling_loop w positions items (place_at w (fst s) (snd s) item pos))))"
      by (rule Cons.IH)
    with Some show ?thesis
      by simp
  qed
qed

lemma run_algorithm_preserves:
  assumes inv: "typed_clearance_invariant (placed_items_tracker e)"
    and run: "run_algorithm w e algorithm items = Inr ep"
  shows "typed_clearance_invariant (placed_items_tracker (fst ep))"
proof -
  have bp: "typed_clearance_invariant
      (placed_items_tracker (fst (bin_packing_optimization w a xs)))"
    if "typed_clearance_invariant (placed_items_tracker a)" for a xs
    using that unfolding bin_packing_optimization_def
    by (intro bin_packing_loop_preserves) simp
  have sf: "typed_clearance_invariant
      (placed_items_tracker (fst (space_filling_optimization w a xs)))"
    if "typed_clearance_invariant (placed_items_tracker a)" for a xs
    using that unfolding space_filling_optimization_def
    by (intro space_filling_loop_preserves) simp
  have ml: "typed_clearance_invariant
      (placed_items_tracker (fst (ml_enhanced_optimization w a xs)))"
    if "typed_clearance_invariant (placed_items_tracker a)" for a xs
    using that unfolding ml_enhanced_optimization_def
    by (intro ml_enhanced_loop_preserves) simp
  have hy: "typed_clearance_invariant
      (placed_items_tracker (fst (hybrid_optimization w e items)))"
    unfolding hybrid_optimization_def Let_def fst_conv
    by (intro sf bp inv)
  from run consider "ep = bin_packing_optimization w e items"
    | "ep = space_filling_optimization w e items"
    | "ep = hybrid_optimization w e items"
    | "ep = ml_enhanced_optimization w e items"
    by (auto simp: run_algorithm_def split: if_splits)
  then show ?thesis
    using bp [OF inv] sf [OF inv] ml [OF inv] hy by cases simp_all
qed


text \<open>The tracker lists the placed units: one entry per unit, with its type tag and box.\<close>

lemma place_at_linked:
  assumes "map (\<lambda>t. (t_type t, Some (t_bounds t))) (placed_items_tracker (fst s)) =
      pre @ map (\<lambda>u. (get_object_type (u_name u), unit_box u)) (snd s)"
  shows "map (\<lambda>t. (t_type t, Some (t_bounds t)))
        (placed_items_tracker (fst (place_at w (fst s) (snd s) item pos))) =
      pre @ map (\<lambda>u. (get_object_type (u_name u), unit_box u))
        (snd (place_at w (fst s) (snd s) item pos))"
proof -
  obtain x y z where pos: "pos = (x, y, z)"
    by (cases pos)
  have "snd (place_at w (fst s) (snd s) item pos) =
      snd s @ [item\<lparr>u_position := Some pos, u_placed := True\<rparr>]"
    by (simp add: place_at_def Let_def)
  with assms show ?thesis
    by (simp add: pos place_at_tracker unit_box_def)
qed

lemma bin_packing_loop_linked:
  assumes "map (\<lambda>t. (t_type t, Some (t_bounds t))) (placed_items_tracker (fst s)) =
      pre @ map (\<lambda>u. (get_object_type (u_name u), unit_box u)) (snd s)"
  shows "map (\<lambda>t. (t_type t, Some (t_bounds t)))
        (placed_items_tracker (fst (bin_packing_loop w items s))) =
      pre @ map (\<lambda>u. (get_object_type (u_name u), unit_box u))
        (snd (bin_packing_loop w items s))"
  using assms
proof (induction items arbitrary: s)
  case Nil
  then show ?case
    by simp
next
  case (Cons item items)
  show ?case
  proof (cases "find_best_position w (fst s) item")
    case None
    with Cons show ?thesis
      by simp
  next
    case (Some r)
    obtain pos item' where r: "r = (pos, item')"
      by (cases r)
    from Some r Cons.IH [OF place_at_linked [OF Cons.prems, of w item' pos]]
    show ?thesis
      by simp
  qed
qed

lemma ml_enhanced_loop_linked:
  assumes "map (\<lambda>t. (t_type t, Some (t_bounds t))) (placed_items_tracker (fst s)) =
      pre @ map (\<lambda>u. (get_object_type (u_name u), unit_box u)) (snd s)"
  shows "map (\<lambda>t. (t_type t, Some (t_bounds t)))
        (placed_items_tracker (fst (ml_enhanced_loop w items s))) =
      pre @ map (\<lambda>u. (get_object_type (u_name u), unit_box u))
        (snd (ml_enhanced_loop w items s))"
  using assms
proof (induction items arbitrary: s)
  case Nil
  then show ?case
    by simp
next
  case (Cons item items)
  let ?found = "find_position_in_zone w (fst s) item (hinted_zone item)
      (warehouse_length w * 0.3, warehouse_width w * 0.4)
      (warehouse_length w * 0.6, warehouse_width w * 0.8)"
  have step: "ml_enhanced_loop w (item # items) s =
      (case ?found of
         Some (pos, item') \<Rightarrow> ml_enhanced_loop w items (place_at w (fst s) (snd s) item' pos)
       | None \<Rightarrow> ml_enhanced_loop w items s)"
    by (simp only: ml_enhanced_loop.simps Let_def)
  show ?case
  proof (cases ?found)
    case None
    with Cons show ?thesis
      by (simp only: step option.case)
  next
    case (Some r)
    obtain pos item' where r: "r = (pos, item')"
      by (cases r)
    from Some r Cons.IH [OF place_at_linked [OF Cons.prems, of w item' pos]]
    show ?thesis
      by (simp only: step option.case prod.case)
  qed
qed

lemma space_filling_loop_linked:
  assumes "map (\<lambda>t. (t_type t, Some (t_bounds t))) (placed_items_tracker (fst s)) =
      pre @ map (\<lambda>u. (get_object_type (u_name u), unit_box u)) (snd s)"
  shows "map (\<lambda>t. (t_type t, Some (t_bounds t)))
        (placed_items_tracker (fst (space_filling_loop w positions items s))) =
      pre @ map (\<lambda>u. (get_object_type (u_name u), unit_box u))
        (snd (space_filling_loop w positions items s))"
  using assms
proof (induction items arbitrary: s)
  case Nil
  then show ?case
    by simp
next
  case (Cons item items)
  show ?case
  proof (cases "find (can_place_item w (fst s) item) positions")
    case None
    with Cons show ?thesis
      by simp
  next
    case (Some pos)
    from Some Cons.IH [OF place_at_linked [OF Cons.prems, of w item pos]]
    show ?thesis
      by simp
  qed
qed

lemma run_algorithm_linked:
  assumes run: "run_algorithm w e algorithm items = Inr ep"
  shows "map (\<lambda>t. (t_type t, Some (t_bounds t))) (placed_items_tracker (fst ep)) =
      map (\<lambda>t. (t_type t, Some (t_bounds t))) (placed_items_tracker e) @
      map (\<lambda>u. (get_object_type (u_name u), unit_box u)) (snd ep)"
proof -
  let ?f = "\<lambda>t. (t_type t, Some (t_bounds t))"
  let ?g = "\<lambda>u. (get_object_type (u_name u), unit_box u)"
  have bp: "map ?f (placed_items_tracker (fst (bin_packing_optimization w a xs))) =
      map ?f (placed_items_tracker a) @ map ?g (snd (bin_packing_optimization w a xs))" for a xs
    unfolding bin_packing_optimization_def by (rule bin_packing_loop_linked) simp
  have sf: "map ?f (placed_items_tracker (fst (space_filling_optimization w a xs))) =
      map ?f (placed_items_tracker a) @ map ?g (snd (space_filling_optimization w a xs))"
    for a xs
    unfolding space_filling_optimization_def by (rule space_filling_loop_linked) simp
  have ml: "map ?f (placed_items_tracker (fst (ml_enhanced_optimization w a xs))) =
      map ?f (placed_items_tracker a) @ map ?g (snd (ml_enhanced_optimization w a xs))"
    for a xs
    unfolding ml_enhanced_optimization_def by (rule ml_enhanced_loop_linked) simp
  have hy: "map ?f (placed_items_tracker (fst (hybrid_optimization w e items))) =
      map ?f (placed_items_tracker e) @ map ?g (snd (hybrid_optimization w e items))"
    unfolding hybrid_optimization_def Let_def fst_conv snd_conv
    by (simp only: sf bp map_append append_assoc)
  from run consider "ep = bin_packing_optimization w e items"
    | "ep = space_filling_optimization w e items"
    | "ep = hybrid_optimization w e items"
    | "ep = ml_enhanced_optimization w e items"
    by (auto simp: run_algorithm_def split: if_splits)
  then show ?thesis
    using bp [of e items] sf [of e items] ml [of e items] hy by cases simp_all
qed

text \<open>
  Claim C1, as the code has it. Every strategy keeps this invariant of the tracker, which
  holds one entry per placed unit with the unit's type tag and box: an entry whose type
  tag is not empty lies at least the clearance threshold 1.0, in the Euclidean distance
  between boxes, from every entry recorded before it that carries a different type tag.
  Entries of the same type are exempt. Each placement appends the entry of a unit that
  \<^verbatim>\<open>_can_place_item_at_position\<close> has just accepted, and that check skips the clearance
  test when the type tag is empty.
\<close>

theorem typed_clearance_preserved:
  assumes "typed_clearance_invariant (placed_items_tracker e)"
    and "run_algorithm w e algorithm items = Inr ep"
  shows "typed_clearance_invariant (placed_items_tracker (fst ep)) \<and>
      map (\<lambda>t. (t_type t, Some (t_bounds t))) (placed_items_tracker (fst ep)) =
        map (\<lambda>t. (t_type t, Some (t_bounds t))) (placed_items_tracker e) @
        map (\<lambda>u. (get_object_type (u_name u), unit_box u)) (snd ep)"
  using run_algorithm_preserves [OF assms] run_algorithm_linked [OF assms(2)]
  by (simp only: simp_thms)


lemma tall_types:
  "get_object_type ''pallet'' = ''pallet''" "get_object_type ''box'' = ''box''"
  "get_object_type ''_spare'' = []"
  by (simp_all add: type_eval)

lemma bin_packing_step_tracker:
  "placed_items_tracker (fst (bin_packing_loop w [] s)) = placed_items_tracker (fst s)"
  by simp

lemma tall_run:
  "placed_items_tracker (fst (bin_packing_optimization scenario_warehouse (reset e)
      [tall_pallet, tall_box])) =
   [\<lparr>t_type = ''pallet'', t_position = (0, 0, 0), t_bounds = (0, 0, 0, 1, 1, 3)\<rparr>,
    \<lparr>t_type = ''box'', t_position = (0, 2, 0), t_bounds = (0, 2, 0, 1, 3, 3)\<rparr>]"
  by (simp add: bin_packing_optimization_def sorted_desc_def bin_packing_step
      scan_eval grid_eval scenario_warehouse_def tall_pallet_def tall_box_def unit_eval
      tall_types
      del: bin_packing_loop.simps(2) cong: first_some_weak_cong)

theorem typed_clearance_preserved_witness:
  "typed_clearance_invariant (placed_items_tracker (reset fresh_engine)) \<and>
   run_algorithm scenario_warehouse (reset fresh_engine) ''bin_packing''
     [tall_pallet, tall_box] =
     Inr (bin_packing_optimization scenario_warehouse (reset fresh_engine)
            [tall_pallet, tall_box]) \<and>
   typed_clearance_invariant (placed_items_tracker
     (fst (bin_packing_optimization scenario_warehouse (reset fresh_engine)
            [tall_pallet, tall_box]))) \<and>
   map t_bounds (placed_items_tracker
     (fst (bin_packing_optimization scenario_warehouse (reset fresh_engine)
            [tall_pallet, tall_box]))) = [(0, 0, 0, 1, 1, 3), (0, 2, 0, 1, 3, 3)]"
proof -
  have h1: "typed_clearance_invariant (placed_items_tracker (reset fresh_engine))"
    by (simp add: reset_empty typed_clearance_invariant_def)
  have h2: "run_algorithm scenario_warehouse (reset fresh_engine) ''bin_packing''
     [tall_pallet, tall_box] =
     Inr (bin_packing_optimization scenario_warehouse (reset fresh_engine)
            [tall_pallet, tall_box])"
    by (simp add: run_algorithm_def)
  from typed_clearance_preserved [OF h1 h2] h1 h2 show ?thesis
    by (simp add: tall_run)
qed


lemma run_algorithm_positions:
  assumes "run_algorithm w e algorithm items = Inr ep"
  shows "None \<notin> set (map u_position (snd ep))"
proof
  assume "None \<in> set (map u_position (snd ep))"
  then obtain u where u: "u \<in> set (snd ep)" and "u_position u = None"
    by auto
  then have "unit_box u = None"
    by (simp add: unit_box_def)
  with u have "None \<in> set (map unit_box (snd ep))"
    by force
  moreover from run_algorithm_linked [OF assms]
  have "map snd (map (\<lambda>t. (t_type t, Some (t_bounds t))) (placed_items_tracker (fst ep))) =
      map snd (map (\<lambda>t. (t_type t, Some (t_bounds t))) (placed_items_tracker e) @
      map (\<lambda>u. (get_object_type (u_name u), unit_box u)) (snd ep))"
    by (rule arg_cong)
  then have "map (\<lambda>t. Some (t_bounds t)) (placed_items_tracker (fst ep)) =
      map (\<lambda>t. Some (t_bounds t)) (placed_items_tracker e) @ map unit_box (snd ep)"
    by (simp add: comp_def)
  then have "set (map unit_box (snd ep)) \<subseteq>
      set (map (\<lambda>t. Some (t_bounds t)) (placed_items_tracker (fst ep)))"
    by (metis set_append sup_ge2)
  ultimately show False
    by auto
qed

lemma spare_units:
  "prepare_items_with_ml
     (apply_seasonal_adjustments [item_of ''box'' 1 1 1 1, item_of ''_spare'' 1 1 1 1]
        (predict_seasonal_demand 1 [item_of ''box'' 1 1 1 1, item_of ''_spare'' 1 1 1 1])) tp =
   [processed_item tp (item_of ''box'' 1 1 1 1) 1 0\<lparr>u_ref := 0\<rparr>,
    processed_item tp (item_of ''_spare'' 1 1 1 1) 1 0\<lparr>u_ref := 1\<rparr>]"
  by (simp add: apply_seasonal_adjustments_def predict_seasonal_demand_def item_of_def
      seasonal_factor_of_def lower_def lower_char_def adjusted_quantity_def py_int_def
      prepare_items_with_ml_def units_of_def)

lemma spare_run:
  "placed_items_tracker (fst (bin_packing_optimization scenario_warehouse (reset e)
     [processed_item tp (item_of ''box'' 1 1 1 1) 1 0\<lparr>u_ref := 0\<rparr>,
      processed_item tp (item_of ''_spare'' 1 1 1 1) 1 0\<lparr>u_ref := 1\<rparr>])) =
   [\<lparr>t_type = ''box'', t_position = (0, 0, 0), t_bounds = (0, 0, 0, 1, 1, 1)\<rparr>,
    \<lparr>t_type = [], t_position = (0, 0, 1), t_bounds = (0, 0, 1, 1, 1, 2)\<rparr>]"
  by (simp add: bin_packing_optimization_def sorted_desc_def bin_packing_step
      scan_eval grid_eval scenario_warehouse_def unit_eval tall_types
      del: bin_packing_loop.simps(2) cong: first_some_weak_cong)

text \<open>
  Claim C1 as stated covers every pair of different type tags. A unit named \<open>_spare\<close>
  gets the empty type tag, for which the clearance check is skipped: after a box of side 1
  at the origin, bin packing puts it at \<open>(0, 0, 1)\<close>, on top of the box, at distance 0
  from a unit of a different type.
\<close>

theorem untyped_unit_touches_counterexample:
  "placed_items_tracker
     (fst (optimize scenario_warehouse fresh_engine 1
        [item_of ''box'' 1 1 1 1, item_of ''_spare'' 1 1 1 1] ''bin_packing'' True)) =
     [\<lparr>t_type = ''box'', t_position = (0, 0, 0), t_bounds = (0, 0, 0, 1, 1, 1)\<rparr>,
      \<lparr>t_type = [], t_position = (0, 0, 1), t_bounds = (0, 0, 1, 1, 1, 2)\<rparr>] \<and>
   box_distance (0, 0, 1, 1, 1, 2) (0, 0, 0, 1, 1, 1) = 0 \<and>
   \<not> clearance_invariant (placed_items_tracker
     (fst (optimize scenario_warehouse fresh_engine 1
        [item_of ''box'' 1 1 1 1, item_of ''_spare'' 1 1 1 1] ''bin_packing'' True)))"
proof -
  let ?items = "[item_of ''box'' 1 1 1 1, item_of ''_spare'' 1 1 1 1]"
  let ?tp = "calculate_turnover_predictions ?items"
  let ?ep = "bin_packing_optimization scenario_warehouse (reset fresh_engine)
      (prepare_items_with_ml (apply_seasonal_adjustments ?items (predict_seasonal_demand 1 ?items))
         ?tp)"
  have alg: "''bin_packing'' \<noteq> ''auto''"
    by simp
  have run: "run_algorithm scenario_warehouse (reset fresh_engine) ''bin_packing''
      (prepare_items_with_ml (apply_seasonal_adjustments ?items (predict_seasonal_demand 1 ?items))
         ?tp) = Inr ?ep"
    by (simp add: run_algorithm_def)
  from run_algorithm_positions [OF run] obtain v where v: "pick_view (snd ?ep) = Inr v"
    using pick_view_total by blast
  from optimize_returns [OF scenario_dims alg run v, of True]
  have "fst (optimize scenario_warehouse fresh_engine 1 ?items ''bin_packing'' True) = fst ?ep"
    by auto
  then have t: "placed_items_tracker
      (fst (optimize scenario_warehouse fresh_engine 1 ?items ''bin_packing'' True)) =
     [\<lparr>t_type = ''box'', t_position = (0, 0, 0), t_bounds = (0, 0, 0, 1, 1, 1)\<rparr>,
      \<lparr>t_type = [], t_position = (0, 0, 1), t_bounds = (0, 0, 1, 1, 1, 2)\<rparr>]"
    by (simp only: spare_units spare_run)
  have d: "box_distance (0, 0, 1, 1, 1, 2) (0, 0, 0, 1, 1, 1) = 0"
    by (simp add: axis_gap_def)
  have "\<not> clearance_invariant
     [\<lparr>t_type = ''box'', t_position = (0, 0, 0), t_bounds = (0, 0, 0, 1, 1, 1)\<rparr>,
      \<lparr>t_type = [], t_position = (0, 0, 1), t_bounds = (0, 0, 1, 1, 1, 2)\<rparr>]"
    by (simp add: clearance_invariant_def clearance_between_def type_distance_constraint_def
        axis_gap_def Let_def)
  with t d show ?thesis
    by (simp only: simp_thms)
qed

subsection \<open>Grid bounds\<close>

lemma z0: "z_order_x 0 = 0" "z_order_y 0 = 0" "z_order_x 1 = 2" "z_order_y 1 = 4"
  "z_order_x 2 = 1" "z_order_y 2 = 8"
  by (simp_all add: z_order_x_def z_order_y_def)

lemma z_order_positions_head:
  "\<exists>rest. generate_z_order_positions scenario_warehouse =
     (0, 0, 0) # (1, 2, 0) # (1 / 2, 4, 0) # rest"
proof -
  have n: "min 1000 (grid_length scenario_warehouse * grid_width scenario_warehouse) - 1 = 199"
    by (simp add: grid_length_def grid_width_def grid_resolution_def py_int_def
        scenario_warehouse_def)
  have u: "[0..199::int] = 0 # 1 # 2 # [3..199]"
    by (simp add: upto_rec1 [of 0] upto_rec1 [of 1] upto_rec1 [of 2])
  show ?thesis
    unfolding generate_z_order_positions_def n u
    by (simp add: z0 Let_def grid_length_def grid_width_def grid_resolution_def py_int_def
        scenario_warehouse_def del: upto.simps)
qed

lemma space_filling_step:
  "space_filling_loop w positions (item # rest) (e, placed) =
     (case find (can_place_item w e item) positions of
        Some pos \<Rightarrow>
          space_filling_loop w positions rest
            (mark_space_occupied w e (item\<lparr>u_position := Some pos, u_placed := True\<rparr>) pos,
             placed @ [item\<lparr>u_position := Some pos, u_placed := True\<rparr>])
      | None \<Rightarrow> space_filling_loop w positions rest (e, placed))"
  by (simp add: place_at_def Let_def split: option.splits)

lemma box_type: "get_object_type ''box'' = ''box''"
  by (simp add: type_eval)

lemma three_boxes:
  "prepare_items_with_ml
     (apply_seasonal_adjustments [item_of ''box'' 2 2 2 3]
        (predict_seasonal_demand 1 [item_of ''box'' 2 2 2 3])) tp =
   [processed_item tp (item_of ''box'' 2 2 2 3) 1 0\<lparr>u_ref := 0\<rparr>,
    processed_item tp (item_of ''box'' 2 2 2 3) 1 1\<lparr>u_ref := 1\<rparr>,
    processed_item tp (item_of ''box'' 2 2 2 3) 1 2\<lparr>u_ref := 2\<rparr>]"
  by (simp add: apply_seasonal_adjustments_def predict_seasonal_demand_def item_of_def
      seasonal_factor_of_def lower_def lower_char_def adjusted_quantity_def py_int_def
      prepare_items_with_ml_def units_of_def upt_conv_Cons numeral_2_eq_2)

lemma three_boxes_run:
  "map u_position (snd (space_filling_optimization scenario_warehouse (reset e)
     [processed_item tp (item_of ''box'' 2 2 2 3) 1 0\<lparr>u_ref := 0\<rparr>,
      processed_item tp (item_of ''box'' 2 2 2 3) 1 1\<lparr>u_ref := 1\<rparr>,
      processed_item tp (item_of ''box'' 2 2 2 3) 1 2\<lparr>u_ref := 2\<rparr>])) =
   [Some (0, 0, 0), Some (1, 2, 0), Some (1 / 2, 4, 0)]"
proof -
  from z_order_positions_head obtain rest where
    gz: "generate_z_order_positions scenario_warehouse =
      (0, 0, 0) # (1, 2, 0) # (1 / 2, 4, 0) # rest"
    by blast
  show ?thesis
    unfolding space_filling_optimization_def gz
    by (simp add: sorted_desc_def space_filling_step can_place_item_def
        scan_eval grid_eval scenario_warehouse_def unit_eval box_type
        del: space_filling_loop.simps(2))
qed

text \<open>
  Claim C2 at three boxes of side 2 under space filling in the 10 x 5 x 3 warehouse. The
  third box is placed at \<open>(0.5, 4, 0)\<close>: its far side is at \<open>y = 6\<close>, beyond the
  warehouse width 5, and its voxel range ends at index 12, beyond the grid width 10. The
  end index is clamped to the grid before it is compared with the grid, so the bounds
  test of \<^verbatim>\<open>_can_place_item_at_position\<close> never rejects, and the box is marked and
  recorded.
\<close>

theorem protruding_box_is_placed:
  "map_sum id (map u_position \<circ> r_placed_items)
     (snd (optimize scenario_warehouse fresh_engine 1 [item_of ''box'' 2 2 2 3]
        ''space_filling'' True)) =
     Inr [Some (0, 0, 0), Some (1, 2, 0), Some (1 / 2, 4, 0)] \<and>
   warehouse_width scenario_warehouse < 4 + 2 \<and>
   grid_width scenario_warehouse < py_int ((4 + 2) / grid_resolution)"
proof -
  let ?items = "[item_of ''box'' 2 2 2 3]"
  let ?tp = "calculate_turnover_predictions ?items"
  let ?ep = "space_filling_optimization scenario_warehouse (reset fresh_engine)
      (prepare_items_with_ml (apply_seasonal_adjustments ?items (predict_seasonal_demand 1 ?items))
         ?tp)"
  have alg: "''space_filling'' \<noteq> ''auto''"
    by simp
  have run: "run_algorithm scenario_warehouse (reset fresh_engine) ''space_filling''
      (prepare_items_with_ml (apply_seasonal_adjustments ?items (predict_seasonal_demand 1 ?items))
         ?tp) = Inr ?ep"
    by (simp add: run_algorithm_def)
  from run_algorithm_positions [OF run] obtain v where v: "pick_view (snd ?ep) = Inr v"
    using pick_view_total by blast
  have p: "map u_position (snd ?ep) = [Some (0, 0, 0), Some (1, 2, 0), Some (1 / 2, 4, 0)]"
    by (simp only: three_boxes three_boxes_run)
  have g: "warehouse_width scenario_warehouse < 4 + 2"
    "grid_width scenario_warehouse < py_int ((4 + 2) / grid_resolution)"
    by (simp_all add: scenario_warehouse_def grid_eval)
  from placed_positions_of_run [OF scenario_dims alg run v, of True] p g
  show ?thesis
    by (simp only: simp_thms)
qed


end
